theory Spec2Isabelle
  imports Main
begin

text \<open>
  A model of \<open>stream_alert/alert_processor/output_base.py\<close>: the base class of the alert
  outputs, which resolves the credentials of an output (local cache, S3, KMS, default
  properties), sends requests and formats configuration entries. Pure methods are
  functions; methods that touch the filesystem, the log or a remote service pass a world
  along and return an exception or a value.
\<close>

section \<open>Python values and string methods used by \<open>output_base.py\<close>\<close>

text \<open>
  The class attributes \<open>__service__\<close> and \<open>__config_service__\<close> hold either the
  sentinel \<open>NotImplemented\<close> (the base class) or a string (a concrete output).
\<close>

datatype pyname = NotImplemented | Str string

fun py_str :: "pyname \<Rightarrow> string" where
  "py_str NotImplemented = ''NotImplemented''"
| "py_str (Str s) = s"

text \<open>
  Truthiness of an optional string argument such as \<open>descriptor\<close>: \<open>None\<close> and the
  empty string are false.
\<close>

fun truthy_str :: "string option \<Rightarrow> bool" where
  "truthy_str None = False"
| "truthy_str (Some s) = (s \<noteq> [])"

text \<open>
  Truthiness of a value that is \<open>None\<close> or a Boolean, such as what
  \<open>_get_creds_from_s3\<close> returns.
\<close>

fun truthy_bool :: "bool option \<Rightarrow> bool" where
  "truthy_bool None = False"
| "truthy_bool (Some b) = b"

text \<open>
  \<open>s.find(old)\<close>: the lowest index at which \<open>old\<close> occurs in \<open>s\<close>; Python's
  \<open>-1\<close> is \<open>None\<close> here.
\<close>

fun py_find :: "string \<Rightarrow> string \<Rightarrow> nat option" where
  "py_find old [] = (if old = [] then Some 0 else None)"
| "py_find old (c # cs) =
     (if take (length old) (c # cs) = old then Some 0
      else map_option Suc (py_find old cs))"

text \<open>
  \<open>s.replace(old, new)\<close> without a count: every occurrence of \<open>old\<close> is replaced,
  scanning from the left and resuming after each replaced occurrence. With an empty \<open>old\<close>
  Python puts \<open>new\<close> before every character and at the end.
\<close>

fun py_replace :: "string \<Rightarrow> string \<Rightarrow> string \<Rightarrow> string" where
  "py_replace old new [] = (if old = [] then new else [])"
| "py_replace old new (c # cs) =
     (if old = [] then new @ c # py_replace old new cs
      else if take (length old) (c # cs) = old
        then new @ py_replace old new (drop (length old - 1) cs)
      else c # py_replace old new cs)"

text \<open>\<open>str(n)\<close> for an integer: its decimal digits, with a minus sign when negative.\<close>

definition digit_char :: "nat \<Rightarrow> char" where
  "digit_char d = ''0123456789'' ! (d mod 10)"

fun str_nat :: "nat \<Rightarrow> string" where
  "str_nat n = (if n < 10 then [digit_char n] else str_nat (n div 10) @ [digit_char (n mod 10)])"

declare str_nat.simps [simp del]

definition str_int :: "int \<Rightarrow> string" where
  "str_int i = (if i < 0 then CHR ''-'' # str_nat (nat (- i)) else str_nat (nat i))"

section \<open>Qualifier formatting: \<open>_format_prefix\<close>\<close>

definition format_prefix :: "string \<Rightarrow> string" where
  "format_prefix s3_prefix =
     (let s3_prefix = py_replace ''_streamalert_alert_processor'' '''' s3_prefix
      in py_replace ''_'' ''.'' s3_prefix)"

section \<open>Exceptions, log records and the world the methods act on\<close>

text \<open>
  Every exception class that the module raises, catches or lets through is a constructor.
  \<open>ClientError\<close> carries \<open>err.response\<close>; \<open>HTTPError\<close> carries \<open>err.url\<close>,
  \<open>err.code\<close> and what \<open>err.read()\<close> returns.
\<close>

datatype exc =
    ClientError string
  | IOError string
  | OSError string
  | ValueError string
  | KeyError string
  | TypeError string
  | AttributeError string
  | HTTPError string int string
  | URLError string
  | OutputRequestFailure string

fun is_HTTPError :: "exc \<Rightarrow> bool" where
  "is_HTTPError (HTTPError err_url err_code err_read) = True"
| "is_HTTPError e = False"

datatype level = INFO | ERROR

text \<open>
  The local filesystem. \<open>fs w p\<close> is what \<open>lstat\<close> reports for the path \<open>p\<close>, taken as
  it is written: nothing, a regular file with its bytes, a directory, or a symbolic link
  with the absolute path of its target. Permissions are outside the model.
\<close>

datatype entry = File string | Dir | Symlink string

record world =
  fs :: "string \<rightharpoonup> entry"
  logged :: "(level \<times> string) list"
  s3_downloads :: "(string \<times> string) list"
  kms_decrypts :: "string list"

text \<open>
  \<open>logged\<close> holds the records sent to \<open>LOGGER\<close>, oldest first; \<open>s3_downloads\<close> the
  (bucket, key) of every \<open>download_fileobj\<close> call; \<open>kms_decrypts\<close> the ciphertext of
  every \<open>decrypt\<close> call.

  A method run is a function from the world to a result and the world after it: \<open>Inl\<close>
  is an exception leaving the method, \<open>Inr\<close> its return value.
\<close>

type_synonym 'a io = "world \<Rightarrow> (exc + 'a) \<times> world"

definition ret :: "'a \<Rightarrow> 'a io" where
  "ret a = (\<lambda>w. (Inr a, w))"

definition raise :: "exc \<Rightarrow> 'a io" where
  "raise e = (\<lambda>w. (Inl e, w))"

definition bnd :: "'a io \<Rightarrow> ('a \<Rightarrow> 'b io) \<Rightarrow> 'b io" where
  "bnd m f = (\<lambda>w. case m w of (Inl e, w') \<Rightarrow> (Inl e, w') | (Inr a, w') \<Rightarrow> f a w')"

text \<open>\<open>try: body except ClientError as err: handler\<close>: only \<open>ClientError\<close> is caught.\<close>

definition try_except_ClientError :: "'a io \<Rightarrow> (string \<Rightarrow> 'a io) \<Rightarrow> 'a io" where
  "try_except_ClientError body handler =
     (\<lambda>w. case body w of
        (Inl (ClientError response), w') \<Rightarrow> handler response w'
      | other \<Rightarrow> other)"

definition LOGGER_error :: "string \<Rightarrow> unit io" where
  "LOGGER_error msg = (\<lambda>w. (Inr (), w\<lparr>logged := logged w @ [(ERROR, msg)]\<rparr>))"

definition LOGGER_info :: "string \<Rightarrow> unit io" where
  "LOGGER_info msg = (\<lambda>w. (Inr (), w\<lparr>logged := logged w @ [(INFO, msg)]\<rparr>))"

subsection \<open>\<open>os\<close>, \<open>os.path\<close> and file objects\<close>

definition os_path_join :: "string \<Rightarrow> string \<Rightarrow> string" where
  "os_path_join a b =
     (if b \<noteq> [] \<and> hd b = CHR ''/'' then b
      else if a = [] \<or> last a = CHR ''/'' then a @ b
      else a @ ''/'' @ b)"

text \<open>
  \<open>os.path.split\<close>: the tail is what follows the last slash; the head is what precedes
  it, without its trailing slashes unless it consists of slashes only.
\<close>

definition os_path_basename :: "string \<Rightarrow> string" where
  "os_path_basename p = rev (takeWhile (\<lambda>c. c \<noteq> CHR ''/'') (rev p))"

definition os_path_dirname :: "string \<Rightarrow> string" where
  "os_path_dirname p =
     (let head = take (length p - length (os_path_basename p)) p
      in if head \<noteq> [] \<and> \<not> list_all (\<lambda>c. c = CHR ''/'') head
         then rev (dropWhile (\<lambda>c. c = CHR ''/'') (rev head))
         else head)"

definition os_path_split :: "string \<Rightarrow> string \<times> string" where
  "os_path_split p = (os_path_dirname p, os_path_basename p)"

text \<open>
  Following symbolic links. \<open>follow f n p\<close> is the path at which the links that start
  at \<open>p\<close> end, when at most \<open>n\<close> links lie on the way; \<open>stat\<close> is what \<open>os.stat\<close> sees,
  with the 40 links that Linux allows. The directory that holds a path is the current
  directory, which exists, when the path has no directory part.
\<close>

fun follow :: "(string \<rightharpoonup> entry) \<Rightarrow> nat \<Rightarrow> string \<Rightarrow> string option" where
  "follow f 0 p = (case f p of Some (Symlink target) \<Rightarrow> None | other \<Rightarrow> Some p)"
| "follow f (Suc n) p = (case f p of Some (Symlink target) \<Rightarrow> follow f n target | other \<Rightarrow> Some p)"

definition stat :: "(string \<rightharpoonup> entry) \<Rightarrow> string \<Rightarrow> entry option" where
  "stat f p = (case follow f 40 p of None \<Rightarrow> None | Some q \<Rightarrow> f q)"

definition parent_stat :: "(string \<rightharpoonup> entry) \<Rightarrow> string \<Rightarrow> entry option" where
  "parent_stat f p =
     (let head = os_path_dirname p in if head = [] then Some Dir else stat f head)"

text \<open>\<open>os.path.exists\<close> and \<open>os.path.isdir\<close> follow links; \<open>os.remove\<close> does not.\<close>

definition os_path_exists :: "string \<Rightarrow> bool io" where
  "os_path_exists p = (\<lambda>w. (Inr (stat (fs w) p \<noteq> None), w))"

definition os_path_isdir :: "string \<Rightarrow> bool io" where
  "os_path_isdir p = (\<lambda>w. (Inr (stat (fs w) p = Some Dir), w))"

definition os_remove :: "string \<Rightarrow> unit io" where
  "os_remove p =
     (\<lambda>w. case fs w p of
        Some (File content) \<Rightarrow> (Inr (), w\<lparr>fs := (fs w)(p := None)\<rparr>)
      | Some (Symlink target) \<Rightarrow> (Inr (), w\<lparr>fs := (fs w)(p := None)\<rparr>)
      | Some Dir \<Rightarrow> (Inl (OSError ''Is a directory''), w)
      | None \<Rightarrow> (Inl (OSError ''No such file or directory''), w))"

text \<open>
  \<open>os.mkdir\<close> fails when anything, a dangling link included, is at the path, and when
  the directory that is to hold the new one is missing or is not a directory.
\<close>

definition os_mkdir :: "string \<Rightarrow> unit io" where
  "os_mkdir p =
     (\<lambda>w. if fs w p \<noteq> None then (Inl (OSError ''File exists''), w)
          else (case parent_stat (fs w) p of
                  Some Dir \<Rightarrow> (Inr (), w\<lparr>fs := (fs w)(p \<mapsto> Dir)\<rparr>)
                | Some other \<Rightarrow> (Inl (OSError ''Not a directory''), w)
                | None \<Rightarrow> (Inl (OSError ''No such file or directory''), w)))"

text \<open>
  \<open>os.makedirs\<close> of Python 2: the head and tail of the name are split off (once more
  when the name ends with a slash); a missing head is made first, where only the error
  \<open>File exists\<close> is passed over; then the directory itself is made.
\<close>

definition makedirs_split :: "string \<Rightarrow> string \<times> string" where
  "makedirs_split name =
     (let (head, tail) = os_path_split name
      in if tail = [] then os_path_split head else (head, tail))"

function os_makedirs :: "string \<Rightarrow> world \<Rightarrow> (exc + unit) \<times> world" where
  "os_makedirs name w =
     (if fst (makedirs_split name) \<noteq> [] \<and> snd (makedirs_split name) \<noteq> []
         \<and> stat (fs w) (fst (makedirs_split name)) = None
      then (case os_makedirs (fst (makedirs_split name)) w of
              (Inl e, w') \<Rightarrow>
                if e \<noteq> OSError ''File exists'' then (Inl e, w')
                else if snd (makedirs_split name) = ''.'' then (Inr (), w')
                else os_mkdir name w'
            | (Inr u, w') \<Rightarrow>
                if snd (makedirs_split name) = ''.'' then (Inr (), w')
                else os_mkdir name w')
      else os_mkdir name w)"
  by pat_completeness auto

termination
proof (relation "measure (\<lambda>(name, w). length name)")
  show "wf (measure (\<lambda>(name, w). length name))"
    by simp
next
  fix name :: string and w :: world
  assume "fst (makedirs_split name) \<noteq> [] \<and> snd (makedirs_split name) \<noteq> []
      \<and> stat (fs w) (fst (makedirs_split name)) = None"
  then have tail: "snd (makedirs_split name) \<noteq> []"
    by simp
  have split: "length (os_path_dirname p) + length (os_path_basename p) \<le> length p" for p
  proof -
    have b: "length (os_path_basename p) \<le> length p"
      using length_takeWhile_le[of "\<lambda>c. c \<noteq> CHR ''/''" "rev p"]
      by (simp add: os_path_basename_def)
    have "length (os_path_dirname p) \<le> length p - length (os_path_basename p)"
      using length_dropWhile_le[of "\<lambda>c. c = CHR ''/''"
          "rev (take (length p - length (os_path_basename p)) p)"]
      by (simp add: os_path_dirname_def Let_def)
    with b show ?thesis
      by simp
  qed
  have "length (fst (makedirs_split name)) + length (snd (makedirs_split name)) \<le> length name"
    using split[of name] split[of "os_path_dirname name"]
    by (simp add: makedirs_split_def os_path_split_def)
  with tail have "length (fst (makedirs_split name)) < length name"
    by (cases "snd (makedirs_split name)") simp_all
  then show "((fst (makedirs_split name), w), (name, w)) \<in> measure (\<lambda>(name, w). length name)"
    by simp
qed

declare os_makedirs.simps [simp del]

text \<open>
  \<open>open(path, mode)\<close> for the two modes in play; links are followed. \<open>'wb'\<close> truncates
  an existing file to zero length and creates a missing one, which needs a proper last
  component and an existing directory to hold it; the handle can only be written.
  \<open>'rb'\<close> needs an existing file and gives a handle that can only be read. The handle
  keeps the path of the file that was opened.
\<close>

datatype mode = RB | WB

record handle =
  h_path :: string
  h_mode :: mode

definition py_open :: "string \<Rightarrow> mode \<Rightarrow> handle io" where
  "py_open p m =
     (\<lambda>w. case follow (fs w) 40 p of
        None \<Rightarrow> (Inl (IOError ''Too many levels of symbolic links''), w)
      | Some q \<Rightarrow>
          (case m of
             WB \<Rightarrow>
               (case fs w q of
                  Some (File content) \<Rightarrow>
                    (Inr \<lparr>h_path = q, h_mode = WB\<rparr>, w\<lparr>fs := (fs w)(q \<mapsto> File [])\<rparr>)
                | Some other \<Rightarrow> (Inl (IOError ''Is a directory''), w)
                | None \<Rightarrow>
                    if os_path_basename q \<in> {[], ''.'', ''..''}
                    then (Inl (IOError ''Is a directory''), w)
                    else (case parent_stat (fs w) q of
                            Some Dir \<Rightarrow>
                              (Inr \<lparr>h_path = q, h_mode = WB\<rparr>,
                               w\<lparr>fs := (fs w)(q \<mapsto> File [])\<rparr>)
                          | Some other \<Rightarrow> (Inl (IOError ''Not a directory''), w)
                          | None \<Rightarrow> (Inl (IOError ''No such file or directory''), w)))
           | RB \<Rightarrow>
               (case fs w q of
                  Some (File content) \<Rightarrow> (Inr \<lparr>h_path = q, h_mode = RB\<rparr>, w)
                | Some other \<Rightarrow> (Inl (IOError ''Is a directory''), w)
                | None \<Rightarrow> (Inl (IOError ''No such file or directory''), w))))"

text \<open>
  \<open>f.read()\<close> and \<open>f.write(data)\<close>. In Python 2 a file opened with \<open>'wb'\<close> cannot
  be read: \<open>read\<close> raises \<open>IOError: File not open for reading\<close>.
\<close>

definition file_read :: "handle \<Rightarrow> string io" where
  "file_read h =
     (\<lambda>w. case h_mode h of
        WB \<Rightarrow> (Inl (IOError ''File not open for reading''), w)
      | RB \<Rightarrow> (case fs w (h_path h) of
                 Some (File content) \<Rightarrow> (Inr content, w)
               | other \<Rightarrow> (Inl (IOError ''I/O operation on closed file''), w)))"

definition file_write :: "handle \<Rightarrow> string \<Rightarrow> unit io" where
  "file_write h data =
     (\<lambda>w. case h_mode h of
        RB \<Rightarrow> (Inl (IOError ''File not open for writing''), w)
      | WB \<Rightarrow> (case fs w (h_path h) of
                 Some (File content) \<Rightarrow>
                   (Inr (), w\<lparr>fs := (fs w)(h_path h \<mapsto> File (content @ data))\<rparr>)
               | other \<Rightarrow> (Inl (IOError ''I/O operation on closed file''), w)))"

text \<open>
  \<open>with open(path, mode) as f: body\<close>. Closing the file changes nothing that is
  modelled, and an exception of the body leaves the statement.
\<close>

definition with_open :: "string \<Rightarrow> mode \<Rightarrow> (handle \<Rightarrow> 'a io) \<Rightarrow> 'a io" where
  "with_open p m body = bnd (py_open p m) body"

section \<open>\<open>OutputProperty\<close> and the output object\<close>

record OutputProperty =
  description :: string
  prop_value :: string
  is_secret :: bool
  cred_requirement :: bool

text \<open>\<open>OutputProperty.__new__.__defaults__\<close> is two empty strings and twice \<open>False\<close>.\<close>

definition OutputProperty_defaults :: OutputProperty where
  "OutputProperty_defaults =
     \<lparr>description = [], prop_value = [], is_secret = False, cred_requirement = False\<rparr>"

text \<open>
  An instance of \<open>StreamOutputBase\<close> or of a subclass: the two class attributes, what
  the class's \<open>get_default_properties\<close> returns (\<open>None\<close> in the base class), and the two
  attributes set by \<open>__init__\<close>. Credential values have any type \<open>'v\<close>.
\<close>

record 'v stream_output =
  service :: pyname
  config_service :: pyname
  get_default_properties :: "(string \<rightharpoonup> 'v) option"
  region :: string
  s3_prefix :: string

text \<open>
  What the module reaches through its imports: \<open>tempfile.gettempdir()\<close>, the S3 and KMS
  clients of \<open>boto3\<close> and \<open>json.loads\<close>. Each remote call either raises or returns;
  a download that raises comes with the bytes it delivered before.
\<close>

record 'v modules =
  gettempdir :: string
  s3_get_object :: "string \<Rightarrow> string \<Rightarrow> string \<Rightarrow> (exc \<times> string) + string"
  kms_plaintext :: "string \<Rightarrow> string \<Rightarrow> exc + string"
  json_loads :: "string \<Rightarrow> exc + (string \<rightharpoonup> 'v)"

text \<open>\<open>__init__(self, region, s3_prefix)\<close> for a class with the given attributes.\<close>

definition init :: "pyname \<Rightarrow> pyname \<Rightarrow> (string \<rightharpoonup> 'v) option \<Rightarrow> string \<Rightarrow> string \<Rightarrow> 'v stream_output" where
  "init svc cfg_svc defaults rgn prefix =
     \<lparr>service = svc, config_service = cfg_svc, get_default_properties = defaults,
      region = rgn, s3_prefix = format_prefix prefix\<rparr>"

text \<open>\<open>sep.join(xs)\<close> and \<open>str(x)\<close> of an optional string.\<close>

fun py_join :: "string \<Rightarrow> string list \<Rightarrow> string" where
  "py_join sep [] = []"
| "py_join sep [x] = x"
| "py_join sep (x # y # ys) = x @ sep @ py_join sep (y # ys)"

fun str_opt :: "string option \<Rightarrow> string" where
  "str_opt None = ''None''"
| "str_opt (Some s) = s"

definition format_s3_bucket :: "'v stream_output \<Rightarrow> string \<Rightarrow> string" where
  "format_s3_bucket self suffix = py_join ''.'' [s3_prefix self, suffix]"

definition get_secrets_bucket_name :: "'v stream_output \<Rightarrow> string" where
  "get_secrets_bucket_name self = format_s3_bucket self ''streamalert.secrets''"

definition output_cred_name :: "'v stream_output \<Rightarrow> string option \<Rightarrow> string" where
  "output_cred_name self descriptor =
     (let cred_name = py_str (service self)
      in if truthy_str descriptor then cred_name @ ''_'' @ str_opt descriptor
         else cred_name)"

section \<open>Credential resolution\<close>

definition local_temp_dir :: "'v modules \<Rightarrow> string io" where
  "local_temp_dir imp =
     (let temp_dir = os_path_join (gettempdir imp) ''stream_alert_secrets'' in
      bnd (os_path_exists temp_dir) (\<lambda>present.
      bnd (if present then bnd (os_path_isdir temp_dir) (\<lambda>isdir. ret (\<not> isdir))
           else ret False) (\<lambda>is_file.
      bnd (if is_file then os_remove temp_dir else ret ()) (\<lambda>u.
      bnd (os_path_exists temp_dir) (\<lambda>present'.
      bnd (if \<not> present' then os_makedirs temp_dir else ret ()) (\<lambda>u'.
      ret temp_dir))))))"

text \<open>
  \<open>client.download_fileobj(bucket, key, fileobj)\<close> on the S3 client of the object's
  region: the call is recorded, and what S3 returns is written to the open file. A
  download that fails may have written a part of the object before it raises.
\<close>

definition download_fileobj ::
  "'v stream_output \<Rightarrow> 'v modules \<Rightarrow> string \<Rightarrow> string \<Rightarrow> handle \<Rightarrow> unit io" where
  "download_fileobj self imp bucket key fileobj =
     (\<lambda>w. let w' = w\<lparr>s3_downloads := s3_downloads w @ [(bucket, key)]\<rparr>
          in case s3_get_object imp (region self) bucket key of
               Inl (e, partial) \<Rightarrow>
                 (case file_write fileobj partial w' of
                    (Inl e', w'') \<Rightarrow> (Inl e', w'')
                  | (Inr u, w'') \<Rightarrow> (Inl e, w''))
             | Inr data \<Rightarrow> file_write fileobj data w')"

text \<open>\<open>client.decrypt(CiphertextBlob=data)['Plaintext']\<close> on the KMS client.\<close>

definition client_decrypt :: "'v stream_output \<Rightarrow> 'v modules \<Rightarrow> string \<Rightarrow> string io" where
  "client_decrypt self imp data =
     (\<lambda>w. let w' = w\<lparr>kms_decrypts := kms_decrypts w @ [data]\<rparr>
          in case kms_plaintext imp (region self) data of
               Inl e \<Rightarrow> (Inl e, w')
             | Inr plaintext \<Rightarrow> (Inr plaintext, w'))"

text \<open>
  \<open>_get_creds_from_s3\<close> returns \<open>True\<close>, or falls off its end after logging: \<open>None\<close>.
\<close>

definition get_creds_from_s3 ::
  "'v stream_output \<Rightarrow> 'v modules \<Rightarrow> string \<Rightarrow> string option \<Rightarrow> bool option io" where
  "get_creds_from_s3 self imp cred_location descriptor =
     try_except_ClientError
       (bnd (with_open cred_location WB (\<lambda>cred_output.
               download_fileobj self imp (get_secrets_bucket_name self)
                 (output_cred_name self descriptor) cred_output))
            (\<lambda>u. ret (Some True)))
       (\<lambda>response.
          bnd (LOGGER_error (''credentials for '' @ output_cred_name self descriptor
                 @ '' could not be downloaded from S3: '' @ response))
              (\<lambda>u. ret None))"

definition kms_decrypt :: "'v stream_output \<Rightarrow> 'v modules \<Rightarrow> string \<Rightarrow> string option io" where
  "kms_decrypt self imp data =
     try_except_ClientError
       (bnd (client_decrypt self imp data) (\<lambda>plaintext. ret (Some plaintext)))
       (\<lambda>response.
          bnd (LOGGER_error (''an error occurred during credentials decryption: '' @ response))
              (\<lambda>u. ret None))"

text \<open>
  \<open>_load_creds\<close>, in pieces so that the two places from which the later lines are
  reached share them: \<open>load_creds_overlay\<close> is the last block (the defaults are laid
  over the parsed dictionary), \<open>load_creds_decrypt\<close> is everything from the call of
  \<open>_kms_decrypt\<close> on, \<open>load_creds_cached\<close> is everything from the \<open>with open\<close>
  statement on, and \<open>load_creds\<close> is the method.
\<close>

definition load_creds_overlay :: "'v stream_output \<Rightarrow> (string \<rightharpoonup> 'v) \<Rightarrow> (string \<rightharpoonup> 'v)" where
  "load_creds_overlay self creds_dict =
     (let defaults = get_default_properties self
      in if defaults \<noteq> None \<and> defaults \<noteq> Some Map.empty
         then creds_dict ++ the defaults
         else creds_dict)"

definition load_creds_decrypt ::
  "'v stream_output \<Rightarrow> 'v modules \<Rightarrow> string \<Rightarrow> (string \<rightharpoonup> 'v) option io" where
  "load_creds_decrypt self imp enc_creds =
     bnd (kms_decrypt self imp enc_creds) (\<lambda>decrypted_creds.
       if \<not> truthy_str decrypted_creds then ret None
       else (case json_loads imp (str_opt decrypted_creds) of
               Inl e \<Rightarrow> raise e
             | Inr creds_dict \<Rightarrow> ret (Some (load_creds_overlay self creds_dict))))"

definition load_creds_cached ::
  "'v stream_output \<Rightarrow> 'v modules \<Rightarrow> string \<Rightarrow> (string \<rightharpoonup> 'v) option io" where
  "load_creds_cached self imp local_cred_location =
     bnd (with_open local_cred_location WB (\<lambda>cred_file. file_read cred_file))
         (\<lambda>enc_creds. load_creds_decrypt self imp enc_creds)"

definition load_creds ::
  "'v stream_output \<Rightarrow> 'v modules \<Rightarrow> string option \<Rightarrow> (string \<rightharpoonup> 'v) option io" where
  "load_creds self imp descriptor =
     bnd (local_temp_dir imp) (\<lambda>temp_dir.
       let local_cred_location = os_path_join temp_dir (output_cred_name self descriptor) in
       bnd (os_path_exists local_cred_location) (\<lambda>present.
         if \<not> present
         then bnd (get_creds_from_s3 self imp local_cred_location descriptor) (\<lambda>ok.
                if \<not> truthy_bool ok then ret None
                else load_creds_cached self imp local_cred_location)
         else load_creds_cached self imp local_cred_location))"

text \<open>\<open>_log_status\<close>: one record, \<open>INFO\<close> on success and \<open>ERROR\<close> otherwise.\<close>

definition log_status :: "'v stream_output \<Rightarrow> bool \<Rightarrow> unit io" where
  "log_status self success =
     (if success then LOGGER_info (''successfully sent alert to '' @ py_str (service self))
      else LOGGER_error (''failed to send alert to '' @ py_str (service self)))"

section \<open>Sending a request: \<open>_request_helper\<close> and \<open>_check_http_response\<close>\<close>

datatype verify_mode = CERT_NONE | CERT_REQUIRED

record ssl_context =
  check_hostname :: bool
  verify_mode :: verify_mode

definition create_default_context :: ssl_context where
  "create_default_context = \<lparr>check_hostname = True, verify_mode = CERT_REQUIRED\<rparr>"

record request =
  req_url :: string
  req_data :: string
  req_headers :: "(string \<times> string) list"

record response =
  getcode :: int
  body :: string

text \<open>
  \<open>urllib2.Request(url, data=data, headers=headers)\<close> copies the headers with
  \<open>headers.items()\<close>; with \<open>headers=None\<close>, the default of \<open>_request_helper\<close>, that
  raises \<open>AttributeError\<close>.
\<close>

definition Request :: "string \<Rightarrow> string \<Rightarrow> (string \<times> string) list option \<Rightarrow> exc + request" where
  "Request url data headers =
     (case headers of
        None \<Rightarrow> Inl (AttributeError ''NoneType object has no attribute items'')
      | Some items \<Rightarrow> Inr \<lparr>req_url = url, req_data = data, req_headers = items\<rparr>)"

text \<open>
  \<open>urllib2.urlopen(request, context=context)\<close> is the network: it returns a response
  or raises, \<open>HTTPError\<close> for an error status and \<open>URLError\<close> when no connection is made.
\<close>

type_synonym urlopen = "request \<Rightarrow> ssl_context option \<Rightarrow> exc + response"

text \<open>
  \<open>_request_helper\<close>: the context, the request and the call of \<open>urlopen\<close> stand in one
  \<open>try\<close> whose only handler is \<open>except urllib2.HTTPError\<close>.
\<close>

definition request_helper ::
  "urlopen \<Rightarrow> string \<Rightarrow> string \<Rightarrow> (string \<times> string) list option \<Rightarrow> bool \<Rightarrow> exc + response" where
  "request_helper urlopen url data headers verify =
     (let context =
            (if \<not> verify
             then Some (create_default_context\<lparr>check_hostname := False, verify_mode := CERT_NONE\<rparr>)
             else None)
      in case (case Request url data headers of
                 Inl e \<Rightarrow> Inl e
               | Inr request \<Rightarrow> urlopen request context) of
           Inr resp \<Rightarrow> Inr resp
         | Inl (HTTPError err_url err_code err_read) \<Rightarrow>
             Inl (OutputRequestFailure
                    (''Failed to send to '' @ err_url @ '' - ['' @ str_int err_code @ ''] ''
                       @ err_read))
         | Inl e \<Rightarrow> Inl e)"

text \<open>
  \<open>resp and (200 <= resp.getcode() <= 299)\<close>: a missing response is returned as it is
  (\<open>None\<close>); a response object is true, so the comparison is the result.
\<close>

definition check_http_response :: "response option \<Rightarrow> bool option" where
  "check_http_response resp =
     (case resp of
        None \<Rightarrow> None
      | Some r \<Rightarrow> Some (200 \<le> getcode r \<and> getcode r \<le> 299))"

section \<open>Configuration: \<open>get_config_service\<close> and \<open>format_output_config\<close>\<close>

text \<open>
  \<open>(self.__config_service__, self.__service__)[self.__config_service__ == NotImplemented]\<close>:
  a true index selects the second component.
\<close>

definition get_config_service :: "'v stream_output \<Rightarrow> pyname" where
  "get_config_service self =
     (if config_service self = NotImplemented then service self else config_service self)"

text \<open>
  Lists and dictionaries are objects that are shared by reference, so the configuration
  lives in a store: an address is an index into the list of allocated objects, a
  dictionary holds the addresses of its values, and allocation appends.
\<close>

datatype obj = PList "string list" | PDict "(pyname \<times> nat) list"

type_synonym store = "obj list"

definition deref :: "store \<Rightarrow> nat \<Rightarrow> obj option" where
  "deref h a = (if a < length h then Some (h ! a) else None)"

definition alloc :: "obj \<Rightarrow> store \<Rightarrow> nat \<times> store" where
  "alloc ob h = (length h, h @ [ob])"

text \<open>\<open>d.get(key, default)\<close> on the dictionary at address \<open>d\<close>.\<close>

definition dict_get :: "store \<Rightarrow> nat \<Rightarrow> pyname \<Rightarrow> nat \<Rightarrow> exc + nat" where
  "dict_get h d key dflt =
     (case deref h d of
        Some (PDict items) \<Rightarrow>
          (case map_of items key of Some a \<Rightarrow> Inr a | None \<Rightarrow> Inr dflt)
      | other \<Rightarrow> Inl (TypeError ''object has no attribute get''))"

text \<open>\<open>xs + ys\<close> on two list objects: a new list object.\<close>

definition list_add :: "nat \<Rightarrow> nat \<Rightarrow> store \<Rightarrow> (exc + nat) \<times> store" where
  "list_add a b h =
     (case (deref h a, deref h b) of
        (Some (PList xs), Some (PList ys)) \<Rightarrow>
          (let (r, h') = alloc (PList (xs @ ys)) h in (Inr r, h'))
      | other \<Rightarrow> (Inl (TypeError ''unsupported operand type(s) for +''), h))"

text \<open>
  \<open>config.get(self.get_config_service(), []) + [props['descriptor'].value]\<close>, in
  Python's order of evaluation: the default \<open>[]\<close> is built, then the lookup, then the
  right operand (where a missing \<open>'descriptor'\<close> raises), then the sum.
\<close>

definition format_output_config ::
  "'v stream_output \<Rightarrow> nat \<Rightarrow> (string \<times> OutputProperty) list \<Rightarrow> store \<Rightarrow> (exc + nat) \<times> store" where
  "format_output_config self config props h =
     (let (dflt, h1) = alloc (PList []) h
      in case dict_get h1 config (get_config_service self) dflt of
           Inl e \<Rightarrow> (Inl e, h1)
         | Inr existing \<Rightarrow>
             (case map_of props ''descriptor'' of
                None \<Rightarrow> (Inl (KeyError ''descriptor''), h1)
              | Some p \<Rightarrow>
                  (let (new, h2) = alloc (PList [prop_value p]) h1
                   in list_add existing new h2)))"

text \<open>
  The descriptor list that the configuration at address \<open>config\<close> holds for a service:
  the empty list when the service has no entry.
\<close>

definition descriptors :: "store \<Rightarrow> nat \<Rightarrow> pyname \<Rightarrow> string list option" where
  "descriptors h config key =
     (case deref h config of
        Some (PDict items) \<Rightarrow>
          (case map_of items key of
             None \<Rightarrow> Some []
           | Some a \<Rightarrow> (case deref h a of Some (PList xs) \<Rightarrow> Some xs | other \<Rightarrow> None))
      | other \<Rightarrow> None)"

section \<open>The specification's reading of \<open>formatQualifier\<close>\<close>

definition underscores_to_dots :: "string \<Rightarrow> string" where
  "underscores_to_dots s = map (\<lambda>c. if c = CHR ''_'' then CHR ''.'' else c) s"

text \<open>
  The specification has the token stripped exactly once. Read as a suffix, the token is
  cut off the end of the qualifier when the qualifier ends with it; read as an occurrence,
  the first one is removed (\<open>q.replace(token, '', 1)\<close>).
\<close>

definition strip_suffix_once :: "string \<Rightarrow> string \<Rightarrow> string" where
  "strip_suffix_once tok q =
     (if length tok \<le> length q \<and> drop (length q - length tok) q = tok
      then take (length q - length tok) q else q)"

definition replace_first :: "string \<Rightarrow> string \<Rightarrow> string \<Rightarrow> string" where
  "replace_first old new s =
     (case py_find old s of None \<Rightarrow> s | Some i \<Rightarrow> take i s @ new @ drop (i + length old) s)"

definition formatQualifier_suffix_once :: "string \<Rightarrow> string" where
  "formatQualifier_suffix_once q =
     underscores_to_dots (strip_suffix_once ''_streamalert_alert_processor'' q)"

definition formatQualifier_first_once :: "string \<Rightarrow> string" where
  "formatQualifier_first_once q =
     underscores_to_dots (replace_first ''_streamalert_alert_processor'' [] q)"

section \<open>Example objects and worlds\<close>

text \<open>
  A Slack output in \<open>us-east-1\<close> without default properties, one with the default
  \<open>b = 9\<close>, and collaborators: S3 holding a blob, KMS decrypting it, and the plaintext
  parsing to \<open>a = 1, b = 2\<close>; then the same with S3 denying access, and with KMS
  rejecting the ciphertext.
\<close>

definition ex_output :: "int stream_output" where
  "ex_output = init (Str ''slack'') NotImplemented None ''us-east-1''
     ''prod_streamalert_alert_processor''"

definition ex_output_defaults :: "int stream_output" where
  "ex_output_defaults = init (Str ''slack'') NotImplemented (Some [''b'' \<mapsto> 9]) ''us-east-1''
     ''prod_streamalert_alert_processor''"

definition ex_modules :: "int modules" where
  "ex_modules =
     \<lparr>gettempdir = ''/tmp'',
      s3_get_object = (\<lambda>rgn bucket key. Inr ''blob''),
      kms_plaintext = (\<lambda>rgn data. Inr ''plaintext''),
      json_loads = (\<lambda>s. Inr [''a'' \<mapsto> 1, ''b'' \<mapsto> 2])\<rparr>"

definition ex_modules_s3_denied :: "int modules" where
  "ex_modules_s3_denied =
     ex_modules\<lparr>s3_get_object := (\<lambda>rgn bucket key. Inl (ClientError ''AccessDenied'', []))\<rparr>"

definition ex_modules_kms_fails :: "int modules" where
  "ex_modules_kms_fails =
     ex_modules\<lparr>kms_plaintext := (\<lambda>rgn data. Inl (ClientError ''InvalidCiphertextException''))\<rparr>"

text \<open>A world with nothing cached, and one where the blob of \<open>slack_alerts\<close> is cached.\<close>

definition ex_world_empty :: world where
  "ex_world_empty =
     \<lparr>fs = [''/tmp'' \<mapsto> Dir], logged = [], s3_downloads = [], kms_decrypts = []\<rparr>"

definition ex_world_cached :: world where
  "ex_world_cached =
     \<lparr>fs = [''/tmp'' \<mapsto> Dir, ''/tmp/stream_alert_secrets'' \<mapsto> Dir,
            ''/tmp/stream_alert_secrets/slack_alerts'' \<mapsto> File ''blob''],
      logged = [], s3_downloads = [], kms_decrypts = []\<rparr>"

text \<open>
  Worlds in which the cache path is a regular file, a link to a regular file, a link to
  a directory, and a link whose target is missing.
\<close>

definition ex_world_file :: world where
  "ex_world_file =
     \<lparr>fs = [''/tmp'' \<mapsto> Dir, ''/tmp/stream_alert_secrets'' \<mapsto> File ''x''],
      logged = [], s3_downloads = [], kms_decrypts = []\<rparr>"

definition ex_world_link_to_file :: world where
  "ex_world_link_to_file =
     \<lparr>fs = [''/tmp'' \<mapsto> Dir, ''/tmp/notes'' \<mapsto> File ''x'',
            ''/tmp/stream_alert_secrets'' \<mapsto> Symlink ''/tmp/notes''],
      logged = [], s3_downloads = [], kms_decrypts = []\<rparr>"

definition ex_world_link_to_dir :: world where
  "ex_world_link_to_dir =
     \<lparr>fs = [''/tmp'' \<mapsto> Dir, ''/srv'' \<mapsto> Dir, ''/srv/secrets'' \<mapsto> Dir,
            ''/tmp/stream_alert_secrets'' \<mapsto> Symlink ''/srv/secrets''],
      logged = [], s3_downloads = [], kms_decrypts = []\<rparr>"

definition ex_world_dangling :: world where
  "ex_world_dangling =
     \<lparr>fs = [''/tmp'' \<mapsto> Dir, ''/tmp/stream_alert_secrets'' \<mapsto> Symlink ''/tmp/gone''],
      logged = [], s3_downloads = [], kms_decrypts = []\<rparr>"

text \<open>
  A network that refuses the connection, one that answers 404, one that was redirected
  before it answers 404, and one that answers 200.
\<close>

definition ex_urlopen_refused :: urlopen where
  "ex_urlopen_refused = (\<lambda>req ctx. Inl (URLError ''Connection refused''))"

definition ex_urlopen_404 :: urlopen where
  "ex_urlopen_404 = (\<lambda>req ctx. Inl (HTTPError (req_url req) 404 ''not found''))"

definition ex_urlopen_redirected_404 :: urlopen where
  "ex_urlopen_redirected_404 = (\<lambda>req ctx. Inl (HTTPError ''https://elsewhere/y'' 404 ''not found''))"

definition ex_urlopen_ok :: urlopen where
  "ex_urlopen_ok = (\<lambda>req ctx. Inr \<lparr>getcode = 200, body = ''ok''\<rparr>)"

text \<open>
  A store with the configuration \<open>{'slack': ['ops']}\<close> at address 0, one with the empty
  configuration, and the properties \<open>{'descriptor': OutputProperty(value='alerts')}\<close>.
\<close>

definition ex_store :: store where
  "ex_store = [PDict [(Str ''slack'', 1)], PList [''ops'']]"

definition ex_store_empty :: store where
  "ex_store_empty = [PDict []]"

definition ex_props :: "(string \<times> OutputProperty) list" where
  "ex_props = [(''descriptor'', OutputProperty_defaults\<lparr>prop_value := ''alerts''\<rparr>)]"

section \<open>Facts about the string methods\<close>

lemma py_replace_char:
  "py_replace [a] [b] s = map (\<lambda>c. if c = a then b else c) s"
  by (induction s) auto

lemma py_find_None:
  "old \<noteq> [] \<Longrightarrow> py_find old s = None \<Longrightarrow> py_replace old new s = s"
  by (induction s) (auto split: if_splits)

lemma py_find_Some:
  "old \<noteq> [] \<Longrightarrow> py_find old s = Some i \<Longrightarrow>
   py_replace old new s = take i s @ new @ py_replace old new (drop (i + length old) s)"
proof (induction s arbitrary: i)
  case Nil
  then show ?case by simp
next
  case (Cons c cs)
  show ?case
  proof (cases "take (length old) (c # cs) = old")
    case True
    with Cons.prems have "i = 0" by simp
    moreover from Cons.prems(1) have "drop (length old) (c # cs) = drop (length old - 1) cs"
      by (cases old) simp_all
    ultimately show ?thesis using True Cons.prems(1) by simp
  next
    case False
    with Cons.prems obtain j where j: "py_find old cs = Some j" "i = Suc j"
      by auto
    from Cons.IH[OF Cons.prems(1) j(1)] False Cons.prems(1) j(2)
    show ?thesis by simp
  qed
qed

text \<open>
  What \<open>py_find\<close> returns is an occurrence, there is none before it, and \<open>None\<close>
  means that there is none at all.
\<close>

lemma py_find_Some_occ:
  "py_find old s = Some i \<Longrightarrow> take (length old) (drop i s) = old \<and> i \<le> length s"
  by (induction s arbitrary: i) (auto split: if_splits)

lemma py_find_Some_first:
  "py_find old s = Some i \<Longrightarrow> j < i \<Longrightarrow> take (length old) (drop j s) \<noteq> old"
proof (induction s arbitrary: i j)
  case Nil
  then show ?case by (simp split: if_splits)
next
  case (Cons c cs)
  then show ?case
    by (cases j) (auto split: if_splits)
qed

lemma py_find_None_occ:
  "py_find old s = None \<Longrightarrow> take (length old) (drop j s) \<noteq> old"
proof (induction s arbitrary: j)
  case Nil
  then show ?case by (simp split: if_splits)
next
  case (Cons c cs)
  then show ?case
    by (cases j) (auto split: if_splits)
qed

lemma str_int_404: "str_int 404 = ''404''"
  by code_simp

section \<open>Qualifier formatting\<close>

lemma format_prefix_dots:
  "format_prefix q = underscores_to_dots (py_replace ''_streamalert_alert_processor'' [] q)"
  by (simp add: format_prefix_def underscores_to_dots_def py_replace_char)

lemma underscores_to_dots_append:
  "underscores_to_dots (a @ b) = underscores_to_dots a @ underscores_to_dots b"
  by (simp add: underscores_to_dots_def)

text \<open>
  Claim C3, as the code has it. \<open>_format_prefix\<close> removes every occurrence of the token
  \<open>_streamalert_alert_processor\<close>, not one: a qualifier without the token only has its
  underscores turned into dots; in a qualifier whose first occurrence of the token is at
  index \<open>i\<close>, the part before it has its underscores turned into dots, the 28 characters of
  the token are dropped, and the rest is formatted in the same way. No underscore is left
  in the result. The two qualifiers of the specification give \<open>prod\<close> and \<open>prod.east\<close>.
\<close>

theorem format_prefix_removes_every_token:
  "(py_find ''_streamalert_alert_processor'' q = None \<longrightarrow>
      format_prefix q = underscores_to_dots q)
   \<and> (py_find ''_streamalert_alert_processor'' q = Some i \<longrightarrow>
      format_prefix q = underscores_to_dots (take i q) @ format_prefix (drop (i + 28) q))
   \<and> CHR ''_'' \<notin> set (format_prefix q)
   \<and> format_prefix ''prod_streamalert_alert_processor'' = ''prod''
   \<and> format_prefix ''prod_east_streamalert_alert_processor'' = ''prod.east''"
proof -
  have a: "py_find ''_streamalert_alert_processor'' q = None \<Longrightarrow>
      format_prefix q = underscores_to_dots q"
    by (simp add: format_prefix_dots py_find_None)
  have b: "py_find ''_streamalert_alert_processor'' q = Some i \<Longrightarrow>
      format_prefix q = underscores_to_dots (take i q) @ format_prefix (drop (i + 28) q)"
  proof -
    assume found: "py_find ''_streamalert_alert_processor'' q = Some i"
    have len: "length ''_streamalert_alert_processor'' = 28"
      by simp
    have "py_replace ''_streamalert_alert_processor'' [] q =
        take i q @ [] @ py_replace ''_streamalert_alert_processor'' []
          (drop (i + length ''_streamalert_alert_processor'') q)"
      by (rule py_find_Some[OF _ found]) simp
    then have "py_replace ''_streamalert_alert_processor'' [] q =
        take i q @ py_replace ''_streamalert_alert_processor'' [] (drop (i + 28) q)"
      unfolding len append_Nil .
    then show ?thesis
      by (simp only: format_prefix_dots underscores_to_dots_append)
  qed
  have c: "CHR ''_'' \<notin> set (format_prefix q)"
    by (auto simp: format_prefix_dots underscores_to_dots_def)
  have d: "format_prefix ''prod_streamalert_alert_processor'' = ''prod''"
    by (simp add: format_prefix_def)
  have e: "format_prefix ''prod_east_streamalert_alert_processor'' = ''prod.east''"
    by (simp add: format_prefix_def)
  from a b c d e show ?thesis by blast
qed

text \<open>
  The theorem at a qualifier that holds the token twice, first at index 4, and at one
  that does not hold it.
\<close>

theorem format_prefix_removes_every_token_witness:
  "py_find ''_streamalert_alert_processor''
      ''prod_streamalert_alert_processor_east_streamalert_alert_processor'' = Some 4
   \<and> format_prefix ''prod_streamalert_alert_processor_east_streamalert_alert_processor''
       = ''prod'' @ format_prefix ''_east_streamalert_alert_processor''
   \<and> py_find ''_streamalert_alert_processor'' ''prod_east'' = None
   \<and> format_prefix ''prod_east'' = ''prod.east''"
  using format_prefix_removes_every_token[of
      "''prod_streamalert_alert_processor_east_streamalert_alert_processor''" 4]
    format_prefix_removes_every_token[of "''prod_east''" 0]
  by (simp add: underscores_to_dots_def)

text \<open>
  Stripping the token exactly once is not what the code does. On a qualifier that ends
  with the token twice the code returns \<open>prod\<close>, while stripping once, as a suffix or
  as the first occurrence, leaves one token whose underscores then become dots.
\<close>

theorem format_prefix_twice_counterexample:
  "format_prefix ''prod_streamalert_alert_processor_streamalert_alert_processor'' = ''prod''
   \<and> formatQualifier_suffix_once ''prod_streamalert_alert_processor_streamalert_alert_processor''
       = ''prod.streamalert.alert.processor''
   \<and> formatQualifier_first_once ''prod_streamalert_alert_processor_streamalert_alert_processor''
       = ''prod.streamalert.alert.processor''"
  by (simp add: format_prefix_def formatQualifier_suffix_once_def formatQualifier_first_once_def
      strip_suffix_once_def replace_first_def underscores_to_dots_def)

section \<open>Credential names\<close>

text \<open>
  Claim C5. For a service string \<open>s\<close>, empty or not, \<open>output_cred_name\<close> returns \<open>s\<close>
  when the descriptor is \<open>None\<close> or the empty string, and \<open>s\<close>, an underscore and the
  descriptor otherwise.
\<close>

theorem output_cred_name_spec:
  "output_cred_name (self\<lparr>service := Str s\<rparr>) None = s
   \<and> output_cred_name (self\<lparr>service := Str s\<rparr>) (Some []) = s
   \<and> output_cred_name (self\<lparr>service := Str s\<rparr>) (Some (c # cs)) = s @ ''_'' @ c # cs"
  by (simp add: output_cred_name_def)

theorem output_cred_name_spec_witness:
  "output_cred_name ex_output None = ''slack''
   \<and> output_cred_name ex_output (Some []) = ''slack''
   \<and> output_cred_name ex_output (Some ''alerts'') = ''slack_alerts''"
  using output_cred_name_spec[where self = ex_output and s = "''slack''" and c = "CHR ''a''"
      and cs = "''lerts''"]
  by (simp add: ex_output_def init_def)

section \<open>Success of a response\<close>

text \<open>
  Claim C8. \<open>_check_http_response\<close> returns a true value exactly when the response is not
  \<open>None\<close> and its status code is between 200 and 299: \<open>True\<close> for 200 and 299, \<open>False\<close>
  for 199 and 300, and for no response the \<open>None\<close> it was given, which is false.
\<close>

theorem check_http_response_spec:
  "truthy_bool (check_http_response resp)
     = (resp \<noteq> None \<and> 200 \<le> getcode (the resp) \<and> getcode (the resp) \<le> 299)
   \<and> check_http_response (Some \<lparr>getcode = 200, body = b\<rparr>) = Some True
   \<and> check_http_response (Some \<lparr>getcode = 299, body = b\<rparr>) = Some True
   \<and> check_http_response (Some \<lparr>getcode = 199, body = b\<rparr>) = Some False
   \<and> check_http_response (Some \<lparr>getcode = 300, body = b\<rparr>) = Some False
   \<and> check_http_response None = None
   \<and> \<not> truthy_bool (check_http_response None)"
  by (cases resp) (simp_all add: check_http_response_def)

theorem check_http_response_spec_witness:
  "truthy_bool (check_http_response (Some \<lparr>getcode = 204, body = []\<rparr>))
   \<and> \<not> truthy_bool (check_http_response (Some \<lparr>getcode = 404, body = ''not found''\<rparr>))
   \<and> \<not> truthy_bool (check_http_response None)"
  using check_http_response_spec[of "Some \<lparr>getcode = 204, body = []\<rparr>" "[]"]
    check_http_response_spec[of "Some \<lparr>getcode = 404, body = ''not found''\<rparr>" "[]"]
    check_http_response_spec[of None "[]"]
  by simp

section \<open>Links and paths\<close>

lemma follow_nonlink:
  "\<forall>target. f p \<noteq> Some (Symlink target) \<Longrightarrow> follow f n p = Some p"
  by (cases n; cases "f p") (auto split: entry.splits)

lemma follow_end:
  "follow f n p = Some q \<Longrightarrow> f q \<noteq> Some (Symlink target)"
  by (induction n arbitrary: p) (auto split: option.splits entry.splits)

lemma follow_absent:
  "f p = None \<Longrightarrow> follow f n p = Some p"
  by (simp add: follow_nonlink)

lemma stat_absent [simp]: "f p = None \<Longrightarrow> stat f p = None"
  by (simp add: stat_def follow_absent)

lemma stat_Dir [simp]: "f p = Some Dir \<Longrightarrow> stat f p = Some Dir"
  by (simp add: stat_def follow_nonlink)

lemma stat_File [simp]: "f p = Some (File content) \<Longrightarrow> stat f p = Some (File content)"
  by (simp add: stat_def follow_nonlink)

lemma stat_not_link: "stat f p \<noteq> Some (Symlink target)"
  by (auto simp: stat_def follow_end split: option.splits)

lemma stat_Some_lstat: "stat f p = Some e \<Longrightarrow> f p \<noteq> None"
  by (cases "f p") simp_all

lemma stat_link:
  "f p = Some (Symlink target) \<Longrightarrow> stat f p = (case follow f 39 target of None \<Rightarrow> None | Some q \<Rightarrow> f q)"
  by (simp add: stat_def eval_nat_numeral)

text \<open>A path that holds nothing is not on the way to an entry, so filling it changes no such way.\<close>

lemma follow_upd:
  "f x = None \<Longrightarrow> follow f n p = Some q \<Longrightarrow> f q \<noteq> None \<Longrightarrow> follow (f(x \<mapsto> e)) n p = Some q"
proof (induction n arbitrary: p)
  case 0
  then show ?case
    by (cases "p = x") (auto split: option.splits entry.splits)
next
  case (Suc n)
  then show ?case
    by (cases "p = x") (auto split: option.splits entry.splits)
qed

lemma stat_upd:
  assumes "f x = None" and "stat f p = Some e"
  shows "stat (f(x \<mapsto> e')) p = Some e"
proof -
  from assms(2) obtain q where q: "follow f 40 p = Some q" "f q = Some e"
    by (auto simp: stat_def split: option.splits)
  with assms(1) have "q \<noteq> x"
    by auto
  moreover from follow_upd[OF assms(1) q(1)] q(2) have "follow (f(x \<mapsto> e')) 40 p = Some q"
    by simp
  ultimately show ?thesis
    using q(2) by (simp add: stat_def)
qed

text \<open>
  More links may be allowed without changing where a way ends; and removing an entry
  that is not a directory, and does not lead to one, changes no way to a directory.
\<close>

lemma follow_mono:
  "follow f m p = Some q \<Longrightarrow> m \<le> n \<Longrightarrow> follow f n p = Some q"
proof (induction m arbitrary: n p)
  case 0
  then show ?case
    by (cases n) (auto split: option.splits entry.splits)
next
  case (Suc m)
  then show ?case
    by (cases n) (auto split: option.splits entry.splits)
qed

lemma follow_remove:
  assumes "follow f n p = Some q" and "f q = Some Dir" and "n \<le> 40"
    and "stat f x \<noteq> Some Dir"
  shows "follow (f(x := None)) n p = Some q \<and> q \<noteq> x"
  using assms(1,3)
proof (induction n arbitrary: p)
  case 0
  have "p \<noteq> x"
  proof
    assume "p = x"
    with 0(1) have "follow f 0 x = Some q"
      by blast
    then have "follow f 40 x = Some q"
      by (rule follow_mono) simp
    with assms(2,4) show False
      by (simp add: stat_def)
  qed
  with 0 assms(2) show ?case
    by (auto split: option.splits entry.splits)
next
  case (Suc n)
  have "p \<noteq> x"
  proof
    assume "p = x"
    with Suc.prems(1) have "follow f (Suc n) x = Some q"
      by blast
    then have "follow f 40 x = Some q"
      using Suc.prems(2) by (rule follow_mono)
    with assms(2,4) show False
      by (simp add: stat_def)
  qed
  show ?case
  proof (cases "f p")
    case None
    with Suc.prems assms(2) show ?thesis
      by simp
  next
    case (Some e)
    show ?thesis
    proof (cases e)
      case (Symlink target)
      with Some Suc.prems have "follow f n target = Some q" "n \<le> 40"
        by simp_all
      from Suc.IH[OF this] Some Symlink \<open>p \<noteq> x\<close> show ?thesis
        by simp
    next
      case (File content)
      with Some Suc.prems assms(2) show ?thesis
        by simp
    next
      case Dir
      with Some Suc.prems \<open>p \<noteq> x\<close> have "q = p"
        by simp
      with Some Dir \<open>p \<noteq> x\<close> show ?thesis
        by simp
    qed
  qed
qed

lemma stat_remove:
  assumes "stat f p = Some Dir" and "stat f x \<noteq> Some Dir"
  shows "stat (f(x := None)) p = Some Dir"
proof -
  from assms(1) obtain q where q: "follow f 40 p = Some q" "f q = Some Dir"
    by (auto simp: stat_def split: option.splits)
  from follow_remove[OF q _ assms(2)] q(2) show ?thesis
    by (simp add: stat_def)
qed

text \<open>A way that ends at a path that holds nothing ends at the file created there.\<close>

lemma follow_upd_end:
  "follow f n p = Some q \<Longrightarrow> f q = None \<Longrightarrow> follow (f(q \<mapsto> File c)) n p = Some q"
proof (induction n arbitrary: p)
  case 0
  then show ?case
    by (cases "p = q") (auto split: option.splits entry.splits)
next
  case (Suc n)
  then show ?case
    by (cases "p = q") (auto split: option.splits entry.splits)
qed

lemma follow_upd_file:
  "follow f n p = Some q \<Longrightarrow> f q = Some (File c) \<Longrightarrow> follow (f(q \<mapsto> File c')) n p = Some q"
proof (induction n arbitrary: p)
  case 0
  then show ?case
    by (cases "p = q") (auto split: option.splits entry.splits)
next
  case (Suc n)
  then show ?case
    by (cases "p = q") (auto split: option.splits entry.splits)
qed

lemma basename_join:
  "CHR ''/'' \<notin> set b \<Longrightarrow> b \<noteq> [] \<Longrightarrow> os_path_basename (os_path_join a b) = b"
proof -
  assume b: "CHR ''/'' \<notin> set b" "b \<noteq> []"
  have tw: "takeWhile (\<lambda>c. c \<noteq> CHR ''/'') (rev b) = rev b"
    using b(1) by (auto simp: takeWhile_eq_all_conv)
  have 1: "os_path_basename (x @ ''/'' @ b) = b" for x
    using b(1) by (simp add: os_path_basename_def takeWhile_append tw)
  have 2: "os_path_basename b = b"
    by (simp add: os_path_basename_def tw)
  have 3: "os_path_basename (a @ b) = b" if "a \<noteq> []" "last a = CHR ''/''"
  proof -
    from that obtain x where "a = x @ ''/''"
      by (metis append_butlast_last_id)
    then show ?thesis
      using 1[of x] by simp
  qed
  from b(2) have "hd b \<noteq> CHR ''/''"
    using b(1) by (cases b) auto
  then show ?thesis
    using 1[of a] 2 3 b(2) by (cases "a = []") (auto simp: os_path_join_def)
qed

lemma makedirs_split_proper:
  "os_path_basename p \<noteq> [] \<Longrightarrow> makedirs_split p = (os_path_dirname p, os_path_basename p)"
  by (simp add: makedirs_split_def os_path_split_def)

lemma bnd_ret [simp]: "bnd (ret a) f = f a"
  by (simp add: bnd_def ret_def)

section \<open>Making directories\<close>

lemma os_mkdir_fields:
  "logged (snd (os_mkdir p w)) = logged w
   \<and> s3_downloads (snd (os_mkdir p w)) = s3_downloads w
   \<and> kms_decrypts (snd (os_mkdir p w)) = kms_decrypts w"
  by (simp add: os_mkdir_def split: option.splits entry.splits)

lemma os_mkdir_success:
  "os_mkdir p w = (Inr u, w') \<Longrightarrow> fs w' p = Some Dir"
  by (auto simp: os_mkdir_def split: if_splits option.splits entry.splits)

lemma os_mkdir_makes:
  "fs w p = None \<Longrightarrow> parent_stat (fs w) p = Some Dir \<Longrightarrow>
   os_mkdir p w = (Inr (), w\<lparr>fs := (fs w)(p \<mapsto> Dir)\<rparr>)"
  by (simp add: os_mkdir_def)

lemma os_mkdir_exists:
  "fs w p = Some e \<Longrightarrow> os_mkdir p w = (Inl (OSError ''File exists''), w)"
  by (simp add: os_mkdir_def)

lemma os_makedirs_parent:
  "parent_stat (fs w) name \<noteq> None \<Longrightarrow> os_path_basename name \<noteq> [] \<Longrightarrow>
   os_makedirs name w = os_mkdir name w"
  by (auto simp: os_makedirs.simps[of name w] makedirs_split_proper parent_stat_def Let_def
      split: if_splits)

lemma os_makedirs_success:
  "os_makedirs name w = (Inr u, w') \<Longrightarrow> snd (makedirs_split name) \<noteq> ''.'' \<Longrightarrow>
   fs w' name = Some Dir"
  by (subst (asm) os_makedirs.simps)
     (auto split: if_splits prod.splits sum.splits dest: os_mkdir_success)

lemma os_makedirs_fields:
  "logged (snd (os_makedirs name w)) = logged w
   \<and> s3_downloads (snd (os_makedirs name w)) = s3_downloads w
   \<and> kms_decrypts (snd (os_makedirs name w)) = kms_decrypts w"
proof (induction name w rule: os_makedirs.induct)
  case (1 name w)
  show ?case
  proof (cases "fst (makedirs_split name) \<noteq> [] \<and> snd (makedirs_split name) \<noteq> []
         \<and> stat (fs w) (fst (makedirs_split name)) = None")
    case False
    then have "os_makedirs name w = os_mkdir name w"
      by (subst os_makedirs.simps) auto
    then show ?thesis
      by (simp add: os_mkdir_fields)
  next
    case True
    obtain r w' where rec: "os_makedirs (fst (makedirs_split name)) w = (r, w')"
      by (cases "os_makedirs (fst (makedirs_split name)) w")
    with "1.IH"[OF True] have keep: "logged w' = logged w" "s3_downloads w' = s3_downloads w"
        "kms_decrypts w' = kms_decrypts w"
      by simp_all
    have "snd (os_makedirs name w) = w' \<or> snd (os_makedirs name w) = snd (os_mkdir name w')"
      using True rec by (subst os_makedirs.simps, subst os_makedirs.simps)
        (auto split: sum.splits)
    with keep show ?thesis
      using os_mkdir_fields[of name w'] by auto
  qed
qed

section \<open>The cache directory\<close>

lemma temp_dir_basename:
  "os_path_basename (os_path_join a ''stream_alert_secrets'') = ''stream_alert_secrets''"
  by (rule basename_join) simp_all

lemma local_temp_dir_isdir:
  assumes "t = os_path_join (gettempdir imp) ''stream_alert_secrets''"
    and "stat (fs w) t = Some Dir"
  shows "local_temp_dir imp w = (Inr t, w)"
  using assms
  by (simp add: local_temp_dir_def Let_def bnd_def ret_def os_path_exists_def os_path_isdir_def)

lemma local_temp_dir_absent:
  assumes t: "t = os_path_join (gettempdir imp) ''stream_alert_secrets''"
    and absent: "fs w t = None"
    and parent: "parent_stat (fs w) t = Some Dir"
  shows "local_temp_dir imp w = (Inr t, w\<lparr>fs := (fs w)(t \<mapsto> Dir)\<rparr>)"
proof -
  have base: "os_path_basename t \<noteq> []"
    by (simp add: t temp_dir_basename)
  have "os_makedirs t w = (Inr (), w\<lparr>fs := (fs w)(t \<mapsto> Dir)\<rparr>)"
    using parent by (simp add: os_makedirs_parent base os_mkdir_makes[OF absent parent])
  then show ?thesis
    using absent
    by (simp add: local_temp_dir_def Let_def bnd_def ret_def os_path_exists_def t[symmetric])
qed

lemma local_temp_dir_file:
  assumes t: "t = os_path_join (gettempdir imp) ''stream_alert_secrets''"
    and st: "stat (fs w) t = Some (File content)"
    and parent: "parent_stat (fs w) t = Some Dir"
  shows "local_temp_dir imp w = (Inr t, w\<lparr>fs := (fs w)(t \<mapsto> Dir)\<rparr>)"
proof -
  let ?w1 = "w\<lparr>fs := (fs w)(t := None)\<rparr>"
  have base: "os_path_basename t \<noteq> []"
    by (simp add: t temp_dir_basename)
  from st have "fs w t \<noteq> None"
    by (rule stat_Some_lstat)
  moreover have "fs w t \<noteq> Some Dir"
    using st by auto
  ultimately have rm: "os_remove t w = (Inr (), ?w1)"
    by (cases "fs w t") (auto simp: os_remove_def split: entry.splits)
  have nd: "stat (fs w) t \<noteq> Some Dir"
    using st by simp
  have pst: "parent_stat (fs ?w1) t = Some Dir"
    using parent stat_remove[OF _ nd, of "os_path_dirname t"]
    by (auto simp: parent_stat_def Let_def split: if_splits)
  have absent1: "fs ?w1 t = None"
    by simp
  have "os_makedirs t ?w1 = os_mkdir t ?w1"
    using pst base by (simp add: os_makedirs_parent)
  then have mk: "os_makedirs t ?w1 = (Inr (), ?w1\<lparr>fs := (fs ?w1)(t \<mapsto> Dir)\<rparr>)"
    by (simp only: os_mkdir_makes[OF absent1 pst])
  have ex1: "stat (fs ?w1) t = None"
    using absent1 by simp
  show ?thesis
    using st
    by (simp add: local_temp_dir_def Let_def bnd_def ret_def os_path_exists_def os_path_isdir_def
        t[symmetric] rm ex1 mk)
qed

lemma local_temp_dir_dangling:
  assumes t: "t = os_path_join (gettempdir imp) ''stream_alert_secrets''"
    and st: "stat (fs w) t = None"
    and link: "fs w t = Some e"
    and parent: "parent_stat (fs w) t = Some Dir"
  shows "local_temp_dir imp w = (Inl (OSError ''File exists''), w)"
proof -
  have base: "os_path_basename t \<noteq> []"
    by (simp add: t temp_dir_basename)
  have "os_makedirs t w = (Inl (OSError ''File exists''), w)"
    using parent by (simp add: os_makedirs_parent base os_mkdir_exists[OF link])
  then show ?thesis
    using st
    by (simp add: local_temp_dir_def Let_def bnd_def ret_def os_path_exists_def t[symmetric])
qed

lemma os_remove_success:
  "os_remove p w = (Inr u, w') \<Longrightarrow> fs w' p = None"
  by (auto simp: os_remove_def split: option.splits entry.splits)

text \<open>The steps of \<open>_local_temp_dir\<close>, by what \<open>os.stat\<close> sees at the cache path.\<close>

lemma local_temp_dir_absent_steps:
  assumes "t = os_path_join (gettempdir imp) ''stream_alert_secrets''"
    and "stat (fs w) t = None"
  shows "local_temp_dir imp w =
     (case os_makedirs t w of (Inl e, w') \<Rightarrow> (Inl e, w') | (Inr u, w') \<Rightarrow> (Inr t, w'))"
  using assms
  by (simp add: local_temp_dir_def Let_def bnd_def ret_def os_path_exists_def
      split: prod.splits sum.splits)

lemma local_temp_dir_conflict_steps:
  assumes "t = os_path_join (gettempdir imp) ''stream_alert_secrets''"
    and "stat (fs w) t = Some e" and "e \<noteq> Dir"
  shows "local_temp_dir imp w =
     (case os_remove t w of
        (Inl x, w') \<Rightarrow> (Inl x, w')
      | (Inr u, w') \<Rightarrow>
          (case os_makedirs t w' of (Inl x, w'') \<Rightarrow> (Inl x, w'') | (Inr u', w'') \<Rightarrow> (Inr t, w'')))"
proof (cases "os_remove t w")
  case (Pair r w')
  show ?thesis
  proof (cases r)
    case (Inl x)
    with Pair assms show ?thesis
      by (simp add: local_temp_dir_def Let_def bnd_def ret_def os_path_exists_def
          os_path_isdir_def)
  next
    case (Inr u)
    with Pair have "fs w' t = None"
      by (auto dest: os_remove_success)
    then have "stat (fs w') t = None"
      by simp
    with Pair Inr assms show ?thesis
      by (simp add: local_temp_dir_def Let_def bnd_def ret_def os_path_exists_def
          os_path_isdir_def split: prod.splits sum.splits)
  qed
qed

text \<open>Whenever \<open>_local_temp_dir\<close> returns, it returns the cache path, and that is a directory.\<close>

lemma local_temp_dir_returns:
  assumes ret: "local_temp_dir imp w = (Inr t, w1)"
  shows "t = os_path_join (gettempdir imp) ''stream_alert_secrets'' \<and> stat (fs w1) t = Some Dir"
proof -
  let ?t = "os_path_join (gettempdir imp) ''stream_alert_secrets''"
  have split: "snd (makedirs_split ?t) \<noteq> ''.''"
    by (simp add: makedirs_split_proper temp_dir_basename)
  have mk: "stat (fs w') ?t = Some Dir" if "os_makedirs ?t w0 = (Inr u, w')" for w0 u w'
    using os_makedirs_success[OF that split] by simp
  show ?thesis
  proof (cases "stat (fs w) ?t")
    case None
    obtain r w' where m: "os_makedirs ?t w = (r, w')"
      by (cases "os_makedirs ?t w")
    with ret local_temp_dir_absent_steps[OF refl None] have "r = Inr () \<and> t = ?t \<and> w1 = w'"
      by (cases r) simp_all
    with m mk[of w "()" w'] show ?thesis
      by simp
  next
    case (Some e)
    show ?thesis
    proof (cases "e = Dir")
      case True
      with Some ret local_temp_dir_isdir[OF refl, where imp = imp and w = w] show ?thesis
        by simp
    next
      case False
      obtain r w' where rm: "os_remove ?t w = (r, w')"
        by (cases "os_remove ?t w")
      obtain r' w'' where m: "os_makedirs ?t w' = (r', w'')"
        by (cases "os_makedirs ?t w'")
      have "local_temp_dir imp w =
          (case r of Inl x \<Rightarrow> (Inl x, w')
           | Inr u \<Rightarrow> (case r' of Inl x \<Rightarrow> (Inl x, w'') | Inr u' \<Rightarrow> (Inr ?t, w'')))"
        by (simp add: local_temp_dir_conflict_steps[OF refl Some False] rm m
            split: sum.splits)
      with ret have "r' = Inr () \<and> t = ?t \<and> w1 = w''"
        by (cases r; cases r') simp_all
      with m mk[of w' "()" w''] show ?thesis
        by simp
    qed
  qed
qed

lemma os_remove_fields:
  "logged (snd (os_remove p w)) = logged w
   \<and> s3_downloads (snd (os_remove p w)) = s3_downloads w
   \<and> kms_decrypts (snd (os_remove p w)) = kms_decrypts w"
  by (simp add: os_remove_def split: option.splits entry.splits)

lemma local_temp_dir_fields:
  "logged (snd (local_temp_dir imp w)) = logged w
   \<and> s3_downloads (snd (local_temp_dir imp w)) = s3_downloads w
   \<and> kms_decrypts (snd (local_temp_dir imp w)) = kms_decrypts w"
proof -
  let ?t = "os_path_join (gettempdir imp) ''stream_alert_secrets''"
  have "snd (local_temp_dir imp w) = w
      \<or> snd (local_temp_dir imp w) = snd (os_makedirs ?t w)
      \<or> snd (local_temp_dir imp w) = snd (os_remove ?t w)
      \<or> snd (local_temp_dir imp w) = snd (os_makedirs ?t (snd (os_remove ?t w)))"
  proof (cases "stat (fs w) ?t")
    case None
    show ?thesis
      by (simp add: local_temp_dir_absent_steps[OF refl None] split: prod.splits sum.splits)
  next
    case (Some e)
    show ?thesis
    proof (cases "e = Dir")
      case True
      with Some show ?thesis
        by (simp add: local_temp_dir_isdir[OF refl])
    next
      case False
      show ?thesis
        by (simp add: local_temp_dir_conflict_steps[OF refl Some False]
            split: prod.splits sum.splits)
    qed
  qed
  then show ?thesis
    using os_makedirs_fields[of ?t w] os_remove_fields[of ?t w]
      os_makedirs_fields[of ?t "snd (os_remove ?t w)"]
    by auto
qed

section \<open>Example worlds, names and paths\<close>

lemma ex_paths:
  "os_path_dirname ''/tmp/stream_alert_secrets'' = ''/tmp''"
  "os_path_dirname ''/tmp/stream_alert_secrets/slack_alerts'' = ''/tmp/stream_alert_secrets''"
  "os_path_basename ''/tmp/stream_alert_secrets/slack_alerts'' = ''slack_alerts''"
  by (simp_all add: os_path_dirname_def os_path_basename_def Let_def)

lemma ex_temp_dir:
  "''/tmp/stream_alert_secrets'' = os_path_join (gettempdir ex_modules) ''stream_alert_secrets''"
  "''/tmp/stream_alert_secrets''
     = os_path_join (gettempdir ex_modules_s3_denied) ''stream_alert_secrets''"
  "''/tmp/stream_alert_secrets''
     = os_path_join (gettempdir ex_modules_kms_fails) ''stream_alert_secrets''"
  by (simp_all add: ex_modules_def ex_modules_s3_denied_def ex_modules_kms_fails_def
      os_path_join_def)

lemma ex_cred_name:
  "output_cred_name ex_output (Some ''alerts'') = ''slack_alerts''"
  "output_cred_name ex_output_defaults (Some ''alerts'') = ''slack_alerts''"
  by (simp_all add: ex_output_def ex_output_defaults_def init_def output_cred_name_def)

lemma ex_bucket:
  "get_secrets_bucket_name ex_output = ''prod.streamalert.secrets''"
  "get_secrets_bucket_name ex_output_defaults = ''prod.streamalert.secrets''"
  by (simp_all add: ex_output_def ex_output_defaults_def init_def get_secrets_bucket_name_def
      format_s3_bucket_def format_prefix_def)

lemma ex_cred_location:
  "''/tmp/stream_alert_secrets/slack_alerts''
     = os_path_join ''/tmp/stream_alert_secrets'' (output_cred_name ex_output (Some ''alerts''))"
  "''/tmp/stream_alert_secrets/slack_alerts''
     = os_path_join ''/tmp/stream_alert_secrets''
         (output_cred_name ex_output_defaults (Some ''alerts''))"
  by (simp_all add: ex_cred_name os_path_join_def)

lemma ex_world_cached_hit:
  "fs ex_world_cached ''/tmp/stream_alert_secrets/slack_alerts'' = Some (File ''blob'')"
  by (simp add: ex_world_cached_def)

lemma ex_world_cached_dir:
  "local_temp_dir ex_modules ex_world_cached = (Inr ''/tmp/stream_alert_secrets'', ex_world_cached)"
  "local_temp_dir ex_modules_kms_fails ex_world_cached
     = (Inr ''/tmp/stream_alert_secrets'', ex_world_cached)"
proof -
  have isdir: "stat (fs ex_world_cached) ''/tmp/stream_alert_secrets'' = Some Dir"
    by (simp add: ex_world_cached_def)
  show "local_temp_dir ex_modules ex_world_cached
      = (Inr ''/tmp/stream_alert_secrets'', ex_world_cached)"
    by (rule local_temp_dir_isdir[OF ex_temp_dir(1) isdir])
  show "local_temp_dir ex_modules_kms_fails ex_world_cached
      = (Inr ''/tmp/stream_alert_secrets'', ex_world_cached)"
    by (rule local_temp_dir_isdir[OF ex_temp_dir(3) isdir])
qed

lemma ex_world_empty_dir:
  "local_temp_dir ex_modules ex_world_empty
     = (Inr ''/tmp/stream_alert_secrets'',
        ex_world_empty\<lparr>fs := (fs ex_world_empty)(''/tmp/stream_alert_secrets'' \<mapsto> Dir)\<rparr>)"
  "local_temp_dir ex_modules_s3_denied ex_world_empty
     = (Inr ''/tmp/stream_alert_secrets'',
        ex_world_empty\<lparr>fs := (fs ex_world_empty)(''/tmp/stream_alert_secrets'' \<mapsto> Dir)\<rparr>)"
proof -
  have absent: "fs ex_world_empty ''/tmp/stream_alert_secrets'' = None"
    by (simp add: ex_world_empty_def)
  have parent: "parent_stat (fs ex_world_empty) ''/tmp/stream_alert_secrets'' = Some Dir"
    by (simp add: parent_stat_def ex_world_empty_def ex_paths)
  show "local_temp_dir ex_modules ex_world_empty
     = (Inr ''/tmp/stream_alert_secrets'',
        ex_world_empty\<lparr>fs := (fs ex_world_empty)(''/tmp/stream_alert_secrets'' \<mapsto> Dir)\<rparr>)"
    by (rule local_temp_dir_absent[OF ex_temp_dir(1) absent parent])
  show "local_temp_dir ex_modules_s3_denied ex_world_empty
     = (Inr ''/tmp/stream_alert_secrets'',
        ex_world_empty\<lparr>fs := (fs ex_world_empty)(''/tmp/stream_alert_secrets'' \<mapsto> Dir)\<rparr>)"
    by (rule local_temp_dir_absent[OF ex_temp_dir(2) absent parent])
qed

lemma ex_stat_link_to_file:
  "stat (fs ex_world_link_to_file) ''/tmp/stream_alert_secrets'' = Some (File ''x'')"
  by (simp add: stat_link[of _ _ "''/tmp/notes''"] follow_nonlink ex_world_link_to_file_def)

lemma ex_stat_link_to_dir:
  "stat (fs ex_world_link_to_dir) ''/tmp/stream_alert_secrets'' = Some Dir"
  by (simp add: stat_link[of _ _ "''/srv/secrets''"] follow_nonlink ex_world_link_to_dir_def)

lemma ex_stat_dangling:
  "stat (fs ex_world_dangling) ''/tmp/stream_alert_secrets'' = None"
  by (simp add: stat_link[of _ _ "''/tmp/gone''"] follow_nonlink ex_world_dangling_def)

section \<open>The cache directory as the caller sees it\<close>

text \<open>
  Claim C9, as the code has it. Let \<open>t\<close> be the cache path, and let the directory that
  holds it (\<open>tempfile.gettempdir()\<close>) be a directory. Whenever \<open>t\<close> is not a symbolic
  link whose target is missing, that is, whenever \<open>os.stat\<close> finds something at \<open>t\<close> or
  nothing at all is there, \<open>_local_temp_dir\<close> returns \<open>t\<close> without an exception and \<open>t\<close>
  is a directory afterwards: a directory or a link to one is left as it is, and in every
  other case (a regular file, a link to one, nothing) the world afterwards is the world
  before with a directory at \<open>t\<close>. When \<open>t\<close> is a link whose target is missing,
  \<open>os.path.exists\<close> is false, nothing is removed, and \<open>os.makedirs\<close> raises \<open>OSError\<close>
  to the caller.
\<close>

theorem local_temp_dir_is_directory:
  assumes t: "t = os_path_join (gettempdir imp) ''stream_alert_secrets''"
    and parent: "parent_stat (fs w) t = Some Dir"
  shows "(stat (fs w) t \<noteq> None \<or> fs w t = None \<longrightarrow>
            fst (local_temp_dir imp w) = Inr t
          \<and> stat (fs (snd (local_temp_dir imp w))) t = Some Dir
          \<and> snd (local_temp_dir imp w)
               = (if stat (fs w) t = Some Dir then w else w\<lparr>fs := (fs w)(t \<mapsto> Dir)\<rparr>))
       \<and> (stat (fs w) t = None \<and> fs w t \<noteq> None \<longrightarrow>
            local_temp_dir imp w = (Inl (OSError ''File exists''), w))"
proof (cases "stat (fs w) t")
  case None
  show ?thesis
  proof (cases "fs w t")
    case absent: None
    show ?thesis
      using None absent by (simp add: local_temp_dir_absent[OF t absent parent])
  next
    case (Some e)
    show ?thesis
      using None Some by (simp add: local_temp_dir_dangling[OF t None Some parent])
  qed
next
  case (Some e)
  show ?thesis
  proof (cases e)
    case (File content)
    with Some have st: "stat (fs w) t = Some (File content)"
      by simp
    show ?thesis
      using st by (simp add: local_temp_dir_file[OF t st parent])
  next
    case Dir
    with Some have st: "stat (fs w) t = Some Dir"
      by simp
    show ?thesis
      using st by (simp add: local_temp_dir_isdir[OF t st])
  next
    case (Symlink target)
    with Some show ?thesis
      by (simp add: stat_not_link)
  qed
qed

text \<open>
  The theorem where the cache path is a regular file, a link to a regular file (the link
  goes, its target stays), a link to a directory, nothing, and a link to nothing.
\<close>

theorem local_temp_dir_is_directory_witness:
  "fs ex_world_file ''/tmp/stream_alert_secrets'' = Some (File ''x'')
   \<and> fst (local_temp_dir ex_modules ex_world_file) = Inr ''/tmp/stream_alert_secrets''
   \<and> fs (snd (local_temp_dir ex_modules ex_world_file)) ''/tmp/stream_alert_secrets'' = Some Dir
   \<and> fs ex_world_link_to_file ''/tmp/stream_alert_secrets'' = Some (Symlink ''/tmp/notes'')
   \<and> fst (local_temp_dir ex_modules ex_world_link_to_file) = Inr ''/tmp/stream_alert_secrets''
   \<and> fs (snd (local_temp_dir ex_modules ex_world_link_to_file)) ''/tmp/stream_alert_secrets''
       = Some Dir
   \<and> fs (snd (local_temp_dir ex_modules ex_world_link_to_file)) ''/tmp/notes'' = Some (File ''x'')
   \<and> local_temp_dir ex_modules ex_world_link_to_dir
       = (Inr ''/tmp/stream_alert_secrets'', ex_world_link_to_dir)
   \<and> fs ex_world_empty ''/tmp/stream_alert_secrets'' = None
   \<and> fst (local_temp_dir ex_modules ex_world_empty) = Inr ''/tmp/stream_alert_secrets''
   \<and> fs (snd (local_temp_dir ex_modules ex_world_empty)) ''/tmp/stream_alert_secrets'' = Some Dir
   \<and> fs (snd (local_temp_dir ex_modules ex_world_dangling)) ''/tmp/stream_alert_secrets''
       = Some (Symlink ''/tmp/gone'')"
proof -
  have parent: "parent_stat (fs ex_world_file) ''/tmp/stream_alert_secrets'' = Some Dir"
      "parent_stat (fs ex_world_link_to_file) ''/tmp/stream_alert_secrets'' = Some Dir"
      "parent_stat (fs ex_world_link_to_dir) ''/tmp/stream_alert_secrets'' = Some Dir"
      "parent_stat (fs ex_world_empty) ''/tmp/stream_alert_secrets'' = Some Dir"
      "parent_stat (fs ex_world_dangling) ''/tmp/stream_alert_secrets'' = Some Dir"
    by (simp_all add: parent_stat_def ex_paths ex_world_file_def ex_world_link_to_file_def
        ex_world_link_to_dir_def ex_world_empty_def ex_world_dangling_def)
  have here: "stat (fs ex_world_file) ''/tmp/stream_alert_secrets'' = Some (File ''x'')"
      "fs ex_world_file ''/tmp/stream_alert_secrets'' = Some (File ''x'')"
      "fs ex_world_link_to_file ''/tmp/stream_alert_secrets'' = Some (Symlink ''/tmp/notes'')"
      "fs ex_world_link_to_file ''/tmp/notes'' = Some (File ''x'')"
      "fs ex_world_empty ''/tmp/stream_alert_secrets'' = None"
      "fs ex_world_dangling ''/tmp/stream_alert_secrets'' = Some (Symlink ''/tmp/gone'')"
    by (simp_all add: ex_world_file_def ex_world_link_to_file_def ex_world_empty_def
        ex_world_dangling_def)
  show ?thesis
    using local_temp_dir_is_directory[OF ex_temp_dir(1) parent(1)]
      local_temp_dir_is_directory[OF ex_temp_dir(1) parent(2)]
      local_temp_dir_is_directory[OF ex_temp_dir(1) parent(3)]
      local_temp_dir_is_directory[OF ex_temp_dir(1) parent(4)]
      local_temp_dir_is_directory[OF ex_temp_dir(1) parent(5)]
    by (simp add: here ex_stat_link_to_file ex_stat_link_to_dir ex_stat_dangling prod_eq_iff)
qed

text \<open>
  A link whose target is missing is an entry at the cache path that is not a directory,
  and it is neither removed nor replaced: the call ends with \<open>OSError\<close> and the world
  is as before.
\<close>

theorem local_temp_dir_dangling_link_counterexample:
  "fs ex_world_dangling ''/tmp/stream_alert_secrets'' = Some (Symlink ''/tmp/gone'')
   \<and> fs ex_world_dangling ''/tmp/gone'' = None
   \<and> local_temp_dir ex_modules ex_world_dangling = (Inl (OSError ''File exists''), ex_world_dangling)"
proof -
  have link: "fs ex_world_dangling ''/tmp/stream_alert_secrets'' = Some (Symlink ''/tmp/gone'')"
    and gone: "fs ex_world_dangling ''/tmp/gone'' = None"
    and parent: "parent_stat (fs ex_world_dangling) ''/tmp/stream_alert_secrets'' = Some Dir"
    by (simp_all add: parent_stat_def ex_world_dangling_def ex_paths)
  show ?thesis
    using link gone
    by (simp add: local_temp_dir_dangling[OF ex_temp_dir(1) ex_stat_dangling link parent])
qed

section \<open>Fetching, decrypting and overlaying\<close>

text \<open>
  Opening a file for writing, and what \<open>_get_creds_from_s3\<close> does once the file is
  open. A download that S3 answers with a \<open>ClientError\<close> is absorbed: the call is
  recorded, what was delivered is in the file, one error is logged and the method
  returns \<open>None\<close>. A download that succeeds leaves the blob in the file.
\<close>

lemma py_open_WB_creates:
  assumes "follow (fs w) 40 p = Some q" and "fs w q = None"
    and "os_path_basename q \<notin> {[], ''.'', ''..''}"
    and "parent_stat (fs w) q = Some Dir"
  shows "py_open p WB w = (Inr \<lparr>h_path = q, h_mode = WB\<rparr>, w\<lparr>fs := (fs w)(q \<mapsto> File [])\<rparr>)"
  using assms by (simp add: py_open_def)

lemma py_open_WB_truncates:
  assumes "follow (fs w) 40 p = Some q" and "fs w q = Some (File content)"
  shows "py_open p WB w = (Inr \<lparr>h_path = q, h_mode = WB\<rparr>, w\<lparr>fs := (fs w)(q \<mapsto> File [])\<rparr>)"
  using assms by (simp add: py_open_def)

lemma get_creds_from_s3_opened_ClientError:
  assumes op: "py_open loc WB w = (Inr \<lparr>h_path = q, h_mode = WB\<rparr>, w\<lparr>fs := (fs w)(q \<mapsto> File [])\<rparr>)"
    and s3: "s3_get_object imp (region self) (get_secrets_bucket_name self)
               (output_cred_name self d) = Inl (ClientError r, partial)"
  shows "get_creds_from_s3 self imp loc d w =
     (Inr None,
      w\<lparr>fs := (fs w)(q \<mapsto> File partial),
        s3_downloads := s3_downloads w @ [(get_secrets_bucket_name self, output_cred_name self d)],
        logged := logged w @ [(ERROR, ''credentials for '' @ output_cred_name self d
                 @ '' could not be downloaded from S3: '' @ r)]\<rparr>)"
  using s3
  by (simp add: get_creds_from_s3_def try_except_ClientError_def with_open_def bnd_def ret_def
      op download_fileobj_def file_write_def LOGGER_error_def Let_def)

lemma get_creds_from_s3_opened_success:
  assumes op: "py_open loc WB w = (Inr \<lparr>h_path = q, h_mode = WB\<rparr>, w\<lparr>fs := (fs w)(q \<mapsto> File [])\<rparr>)"
    and s3: "s3_get_object imp (region self) (get_secrets_bucket_name self)
               (output_cred_name self d) = Inr blob"
  shows "get_creds_from_s3 self imp loc d w =
     (Inr (Some True),
      w\<lparr>fs := (fs w)(q \<mapsto> File blob),
        s3_downloads := s3_downloads w @ [(get_secrets_bucket_name self, output_cred_name self d)]\<rparr>)"
  using s3
  by (simp add: get_creds_from_s3_def try_except_ClientError_def with_open_def bnd_def ret_def
      op download_fileobj_def file_write_def Let_def)

text \<open>
  A decryption that KMS answers with a \<open>ClientError\<close> is absorbed by \<open>_kms_decrypt\<close> in
  the same way, and the lines of \<open>_load_creds\<close> from the call of \<open>_kms_decrypt\<close> on then
  return \<open>None\<close>. With a plaintext that parses, they return the overlaid dictionary.
\<close>

lemma kms_decrypt_ClientError:
  assumes "kms_plaintext imp (region self) data = Inl (ClientError r)"
  shows "kms_decrypt self imp data w =
     (Inr None,
      w\<lparr>kms_decrypts := kms_decrypts w @ [data],
        logged := logged w @ [(ERROR, ''an error occurred during credentials decryption: '' @ r)]\<rparr>)"
  using assms
  by (simp add: kms_decrypt_def try_except_ClientError_def bnd_def client_decrypt_def
      LOGGER_error_def ret_def Let_def)

lemma kms_decrypt_success:
  assumes "kms_plaintext imp (region self) data = Inr plaintext"
  shows "kms_decrypt self imp data w =
     (Inr (Some plaintext), w\<lparr>kms_decrypts := kms_decrypts w @ [data]\<rparr>)"
  using assms
  by (simp add: kms_decrypt_def try_except_ClientError_def bnd_def client_decrypt_def
      ret_def Let_def)

lemma load_creds_decrypt_ClientError:
  assumes "kms_plaintext imp (region self) data = Inl (ClientError r)"
  shows "load_creds_decrypt self imp data w =
     (Inr None,
      w\<lparr>kms_decrypts := kms_decrypts w @ [data],
        logged := logged w @ [(ERROR, ''an error occurred during credentials decryption: '' @ r)]\<rparr>)"
  by (simp add: load_creds_decrypt_def bnd_def kms_decrypt_ClientError[OF assms] ret_def)

lemma load_creds_decrypt_success:
  assumes "kms_plaintext imp (region self) data = Inr plaintext"
    and "plaintext \<noteq> []"
    and "json_loads imp plaintext = Inr creds_dict"
  shows "load_creds_decrypt self imp data w =
     (Inr (Some (load_creds_overlay self creds_dict)),
      w\<lparr>kms_decrypts := kms_decrypts w @ [data]\<rparr>)"
  using assms(2,3)
  by (simp add: load_creds_decrypt_def bnd_def kms_decrypt_success[OF assms(1)] ret_def)

text \<open>The overlay: on every key that the defaults hold, the default wins.\<close>

lemma load_creds_overlay_defaults:
  assumes "get_default_properties self = Some defaults"
    and "defaults \<noteq> Map.empty"
  shows "load_creds_overlay self creds_dict = creds_dict ++ defaults"
  using assms by (simp add: load_creds_overlay_def Let_def)

lemma load_creds_overlay_lookup:
  assumes "get_default_properties self = Some defaults"
  shows "load_creds_overlay self creds_dict k =
     (case defaults k of Some v \<Rightarrow> Some v | None \<Rightarrow> creds_dict k)"
  using assms
  by (auto simp: load_creds_overlay_def Let_def map_add_def split: option.splits)

lemma load_creds_overlay_example:
  "load_creds_overlay ex_output_defaults [''a'' \<mapsto> 1, ''b'' \<mapsto> 2] = [''a'' \<mapsto> 1, ''b'' \<mapsto> 9]"
proof -
  have "[''b'' \<mapsto> 9::int] \<noteq> Map.empty"
    by simp
  then have "load_creds_overlay ex_output_defaults [''a'' \<mapsto> 1, ''b'' \<mapsto> 2]
      = [''a'' \<mapsto> 1, ''b'' \<mapsto> 2] ++ [''b'' \<mapsto> 9]"
    by (intro load_creds_overlay_defaults) (simp_all add: ex_output_defaults_def init_def)
  then show ?thesis
    by simp
qed

section \<open>\<open>_load_creds\<close> as a whole\<close>

text \<open>
  The \<open>with open(local_cred_location, 'wb')\<close> statement of \<open>_load_creds\<close> truncates the
  cached file, and the \<open>read\<close> in its body raises. Nothing of the method catches the
  \<open>IOError\<close>, so every run that reaches the statement with a file in the cache ends
  with it; and no run that reaches the statement makes a download.
\<close>

lemma load_creds_cached_raises:
  assumes "follow (fs w) 40 loc = Some q" and "fs w q = Some (File content)"
  shows "load_creds_cached self imp loc w =
     (Inl (IOError ''File not open for reading''), w\<lparr>fs := (fs w)(q \<mapsto> File [])\<rparr>)"
  by (simp add: load_creds_cached_def with_open_def bnd_def py_open_WB_truncates[OF assms]
      file_read_def)

lemma load_creds_cached_no_download:
  "s3_downloads (snd (load_creds_cached self imp loc w)) = s3_downloads w"
  by (simp add: load_creds_cached_def with_open_def bnd_def py_open_def file_read_def
      split: option.splits entry.splits mode.splits)

text \<open>
  In the lemmas below \<open>_local_temp_dir\<close> has returned the cache directory \<open>t\<close> in the
  world \<open>w1\<close>, and \<open>loc\<close> is the path of the credential in it. The first is the cache
  miss with a failed download, the second the cache miss with a download that succeeds
  (the blob is fetched, then lost), the third the cache hit (the cached blob is lost).
\<close>

lemma load_creds_miss_ClientError:
  assumes dir: "local_temp_dir imp w = (Inr t, w1)"
    and loc: "loc = os_path_join t (output_cred_name self d)"
    and chain: "follow (fs w1) 40 loc = Some q"
    and absent: "fs w1 q = None"
    and name: "os_path_basename q \<notin> {[], ''.'', ''..''}"
    and parent: "parent_stat (fs w1) q = Some Dir"
    and s3: "s3_get_object imp (region self) (get_secrets_bucket_name self)
               (output_cred_name self d) = Inl (ClientError r, partial)"
  shows "load_creds self imp d w =
     (Inr None,
      w1\<lparr>fs := (fs w1)(q \<mapsto> File partial),
        s3_downloads := s3_downloads w1 @ [(get_secrets_bucket_name self, output_cred_name self d)],
        logged := logged w1 @ [(ERROR, ''credentials for '' @ output_cred_name self d
                 @ '' could not be downloaded from S3: '' @ r)]\<rparr>)"
proof -
  have st: "stat (fs w1) loc = None"
    using chain absent by (simp add: stat_def)
  have ex: "os_path_exists loc w1 = (Inr False, w1)"
    using st by (simp add: os_path_exists_def)
  note fetch = get_creds_from_s3_opened_ClientError[OF
      py_open_WB_creates[OF chain absent name parent] s3]
  show ?thesis
    by (simp add: load_creds_def bnd_def dir Let_def loc[symmetric] ex fetch ret_def)
qed

lemma load_creds_miss_success:
  assumes dir: "local_temp_dir imp w = (Inr t, w1)"
    and loc: "loc = os_path_join t (output_cred_name self d)"
    and absent: "fs w1 loc = None"
    and name: "os_path_basename loc \<notin> {[], ''.'', ''..''}"
    and parent: "parent_stat (fs w1) loc = Some Dir"
    and s3: "s3_get_object imp (region self) (get_secrets_bucket_name self)
               (output_cred_name self d) = Inr blob"
  shows "load_creds self imp d w =
     (Inl (IOError ''File not open for reading''),
      w1\<lparr>fs := (fs w1)(loc \<mapsto> File []),
        s3_downloads := s3_downloads w1 @ [(get_secrets_bucket_name self, output_cred_name self d)]\<rparr>)"
proof -
  have chain: "follow (fs w1) 40 loc = Some loc"
    using absent by (simp add: follow_absent)
  have ex: "os_path_exists loc w1 = (Inr False, w1)"
    using absent by (simp add: os_path_exists_def)
  note fetch = get_creds_from_s3_opened_success[OF
      py_open_WB_creates[OF chain absent name parent] s3]
  let ?w2 = "w1\<lparr>fs := (fs w1)(loc \<mapsto> File blob),
        s3_downloads := s3_downloads w1 @ [(get_secrets_bucket_name self, output_cred_name self d)]\<rparr>"
  have chain2: "follow (fs ?w2) 40 loc = Some loc"
    by (simp add: follow_nonlink)
  have file2: "fs ?w2 loc = Some (File blob)"
    by simp
  show ?thesis
    by (simp add: load_creds_def bnd_def dir Let_def loc[symmetric] ex fetch
        load_creds_cached_raises[OF chain2 file2])
qed

lemma load_creds_hit:
  assumes dir: "local_temp_dir imp w = (Inr t, w1)"
    and loc: "loc = os_path_join t (output_cred_name self d)"
    and hit: "fs w1 loc = Some (File blob)"
  shows "load_creds self imp d w =
     (Inl (IOError ''File not open for reading''), w1\<lparr>fs := (fs w1)(loc \<mapsto> File [])\<rparr>)"
proof -
  have chain: "follow (fs w1) 40 loc = Some loc"
    using hit by (simp add: follow_nonlink)
  have ex: "os_path_exists loc w1 = (Inr True, w1)"
    using hit by (simp add: os_path_exists_def)
  show ?thesis
    by (simp add: load_creds_def bnd_def dir Let_def loc[symmetric] ex
        load_creds_cached_raises[OF chain hit])
qed

text \<open>A call that finds something at the credential path makes no download.\<close>

lemma load_creds_present_no_download:
  assumes dir: "local_temp_dir imp w = (Inr t, w1)"
    and loc: "loc = os_path_join t (output_cred_name self d)"
    and present: "stat (fs w1) loc = Some e"
  shows "s3_downloads (snd (load_creds self imp d w)) = s3_downloads w1"
proof -
  have ex: "os_path_exists loc w1 = (Inr True, w1)"
    using present by (simp add: os_path_exists_def)
  show ?thesis
    by (simp add: load_creds_def bnd_def dir Let_def loc[symmetric] ex
        load_creds_cached_no_download)
qed

text \<open>
  Claim C10. Let \<open>_local_temp_dir\<close> return the cache directory \<open>t\<close>, let nothing be
  found at the credential's path \<open>loc\<close> (the path, or the end \<open>q\<close> of the links that
  start there, holds nothing), let \<open>q\<close> be a proper file name in an existing directory,
  so that the file can be opened, and let S3 answer the download with a \<open>ClientError\<close>
  after delivering the bytes \<open>partial\<close>. Then \<open>_get_creds_from_s3\<close> leaves a file at
  \<open>loc\<close>, which it opened before the download: created in the world \<open>w1\<close>, and
  truncated in any world \<open>w0\<close> where a file was there. \<open>_load_creds\<close> returns \<open>None\<close>
  with that file in place after one download attempt and one logged error; and a second
  \<open>_load_creds\<close> for the same descriptor, whatever S3 would answer now, attempts no
  download.
\<close>

theorem failed_fetch_leaves_file:
  assumes dir: "local_temp_dir imp w = (Inr t, w1)"
    and loc: "loc = os_path_join t (output_cred_name self d)"
    and chain: "follow (fs w1) 40 loc = Some q"
    and absent: "fs w1 q = None"
    and name: "os_path_basename q \<notin> {[], ''.'', ''..''}"
    and parent: "parent_stat (fs w1) q = Some Dir"
    and s3: "s3_get_object imp (region self) (get_secrets_bucket_name self)
               (output_cred_name self d) = Inl (ClientError r, partial)"
    and tmp: "gettempdir imp' = gettempdir imp"
    and chain0: "follow (fs w0) 40 loc = Some q0"
    and file0: "fs w0 q0 = Some (File content)"
  shows "stat (fs (snd (get_creds_from_s3 self imp loc d w0))) loc = Some (File partial)
       \<and> stat (fs (snd (get_creds_from_s3 self imp loc d w1))) loc = Some (File partial)
       \<and> fst (load_creds self imp d w) = Inr None
       \<and> stat (fs (snd (load_creds self imp d w))) loc = Some (File partial)
       \<and> s3_downloads (snd (load_creds self imp d w))
           = s3_downloads w @ [(get_secrets_bucket_name self, output_cred_name self d)]
       \<and> logged (snd (load_creds self imp d w))
           = logged w @ [(ERROR, ''credentials for '' @ output_cred_name self d
                 @ '' could not be downloaded from S3: '' @ r)]
       \<and> s3_downloads (snd (load_creds self imp' d (snd (load_creds self imp d w))))
           = s3_downloads (snd (load_creds self imp d w))"
proof -
  have truncated: "stat (fs (snd (get_creds_from_s3 self imp loc d w0))) loc = Some (File partial)"
    using follow_upd_file[OF chain0 file0, of partial]
    by (simp add: get_creds_from_s3_opened_ClientError[OF py_open_WB_truncates[OF chain0 file0] s3]
        stat_def)
  have created: "stat (fs (snd (get_creds_from_s3 self imp loc d w1))) loc = Some (File partial)"
    using follow_upd_end[OF chain absent, of partial]
    by (simp add: get_creds_from_s3_opened_ClientError[OF
          py_open_WB_creates[OF chain absent name parent] s3] stat_def)
  note call1 = load_creds_miss_ClientError[OF dir loc chain absent name parent s3]
  let ?w2 = "snd (load_creds self imp d w)"
  from local_temp_dir_fields[of imp w] dir
  have same: "logged w1 = logged w" "s3_downloads w1 = s3_downloads w"
    by simp_all
  have fs2: "fs ?w2 = (fs w1)(q \<mapsto> File partial)"
    by (simp add: call1)
  have left: "stat (fs ?w2) loc = Some (File partial)"
    using follow_upd_end[OF chain absent, of partial] by (simp add: fs2 stat_def)
  have t: "t = os_path_join (gettempdir imp') ''stream_alert_secrets''"
    using local_temp_dir_returns[OF dir, THEN conjunct1] tmp by simp
  have isdir: "stat (fs w1) t = Some Dir"
    by (rule local_temp_dir_returns[OF dir, THEN conjunct2])
  have "stat (fs ?w2) t = Some Dir"
    using stat_upd[OF absent isdir] by (simp add: fs2)
  then have dir2: "local_temp_dir imp' ?w2 = (Inr t, ?w2)"
    by (rule local_temp_dir_isdir[OF t])
  have second: "s3_downloads (snd (load_creds self imp' d ?w2)) = s3_downloads ?w2"
    by (rule load_creds_present_no_download[OF dir2 loc left])
  show ?thesis
    using truncated created left second by (simp add: call1 same)
qed

text \<open>
  The theorem at the Slack output: S3 denies access; the file that \<open>_get_creds_from_s3\<close>
  truncates is the cached blob, \<open>_load_creds\<close> starts with nothing cached, and its second
  call is made when S3 would deliver the blob.
\<close>

theorem failed_fetch_leaves_file_witness:
  "fs ex_world_empty ''/tmp/stream_alert_secrets/slack_alerts'' = None
   \<and> s3_get_object ex_modules_s3_denied ''us-east-1'' ''prod.streamalert.secrets'' ''slack_alerts''
       = Inl (ClientError ''AccessDenied'', [])
   \<and> fs ex_world_cached ''/tmp/stream_alert_secrets/slack_alerts'' = Some (File ''blob'')
   \<and> stat (fs (snd (get_creds_from_s3 ex_output ex_modules_s3_denied
        ''/tmp/stream_alert_secrets/slack_alerts'' (Some ''alerts'') ex_world_cached)))
        ''/tmp/stream_alert_secrets/slack_alerts'' = Some (File [])
   \<and> fst (load_creds ex_output ex_modules_s3_denied (Some ''alerts'') ex_world_empty) = Inr None
   \<and> stat (fs (snd (load_creds ex_output ex_modules_s3_denied (Some ''alerts'') ex_world_empty)))
        ''/tmp/stream_alert_secrets/slack_alerts'' = Some (File [])
   \<and> s3_downloads (snd (load_creds ex_output ex_modules (Some ''alerts'')
        (snd (load_creds ex_output ex_modules_s3_denied (Some ''alerts'') ex_world_empty))))
       = [(''prod.streamalert.secrets'', ''slack_alerts'')]"
proof -
  let ?loc = "''/tmp/stream_alert_secrets/slack_alerts''"
  let ?w1 = "ex_world_empty\<lparr>fs := (fs ex_world_empty)(''/tmp/stream_alert_secrets'' \<mapsto> Dir)\<rparr>"
  have absent: "fs ?w1 ?loc = None"
    by (simp add: ex_world_empty_def)
  have chain: "follow (fs ?w1) 40 ?loc = Some ?loc"
    using absent by (rule follow_absent)
  have name: "os_path_basename ?loc \<notin> {[], ''.'', ''..''}"
    by (simp add: ex_paths)
  have parent: "parent_stat (fs ?w1) ?loc = Some Dir"
    by (simp add: parent_stat_def ex_paths)
  have s3: "s3_get_object ex_modules_s3_denied (region ex_output)
      (get_secrets_bucket_name ex_output) (output_cred_name ex_output (Some ''alerts''))
      = Inl (ClientError ''AccessDenied'', [])"
    by (simp add: ex_modules_s3_denied_def)
  have tmp: "gettempdir ex_modules = gettempdir ex_modules_s3_denied"
    by (simp add: ex_modules_s3_denied_def)
  have chain0: "follow (fs ex_world_cached) 40 ?loc = Some ?loc"
    by (simp add: follow_nonlink ex_world_cached_hit)
  have used: "s3_downloads ex_world_empty = []"
    by (simp add: ex_world_empty_def)
  show ?thesis
    using failed_fetch_leaves_file[OF ex_world_empty_dir(2) ex_cred_location(1) chain absent name
        parent s3 tmp chain0 ex_world_cached_hit]
    by (simp add: ex_world_empty_def ex_world_cached_hit ex_modules_s3_denied_def ex_bucket
        ex_cred_name used)
qed

text \<open>
  Claim C1, on the code. With the blob of \<open>slack_alerts\<close> in the cache, two calls of
  \<open>_load_creds\<close> in a row make no download, as the claim says; but neither returns
  credentials: each ends with the \<open>IOError\<close> of reading a file opened for writing, and
  the first has emptied the cached file.
\<close>

theorem load_creds_cached_blob_raises:
  "fst (load_creds ex_output ex_modules (Some ''alerts'') ex_world_cached)
     = Inl (IOError ''File not open for reading'')
   \<and> fs (snd (load_creds ex_output ex_modules (Some ''alerts'') ex_world_cached))
        ''/tmp/stream_alert_secrets/slack_alerts'' = Some (File [])
   \<and> s3_downloads (snd (load_creds ex_output ex_modules (Some ''alerts'') ex_world_cached)) = []
   \<and> fst (load_creds ex_output ex_modules (Some ''alerts'')
        (snd (load_creds ex_output ex_modules (Some ''alerts'') ex_world_cached)))
     = Inl (IOError ''File not open for reading'')
   \<and> s3_downloads (snd (load_creds ex_output ex_modules (Some ''alerts'')
        (snd (load_creds ex_output ex_modules (Some ''alerts'') ex_world_cached)))) = []"
proof -
  let ?t = "''/tmp/stream_alert_secrets''"
  let ?loc = "''/tmp/stream_alert_secrets/slack_alerts''"
  note call1 = load_creds_hit[OF ex_world_cached_dir(1) ex_cred_location(1) ex_world_cached_hit]
  let ?w2 = "ex_world_cached\<lparr>fs := (fs ex_world_cached)(?loc \<mapsto> File [])\<rparr>"
  have "stat (fs ?w2) ?t = Some Dir"
    by (simp add: ex_world_cached_def)
  then have dir2: "local_temp_dir ex_modules ?w2 = (Inr ?t, ?w2)"
    by (rule local_temp_dir_isdir[OF ex_temp_dir(1)])
  have hit2: "fs ?w2 ?loc = Some (File [])"
    by simp
  note call2 = load_creds_hit[OF dir2 ex_cred_location(1) hit2]
  have s: "s3_downloads ex_world_cached = []"
    by (simp add: ex_world_cached_def)
  show ?thesis
    by (simp add: call1 call2 s)
qed

text \<open>
  Claim C2, on the code. With the blob cached and a KMS that rejects every ciphertext
  with a \<open>ClientError\<close>, \<open>_load_creds\<close> does not return \<open>None\<close> and logs nothing: the
  \<open>IOError\<close> of the read leaves the method before \<open>_kms_decrypt\<close> is called.
\<close>

theorem load_creds_kms_failure_raises:
  "fst (load_creds ex_output ex_modules_kms_fails (Some ''alerts'') ex_world_cached)
     = Inl (IOError ''File not open for reading'')
   \<and> logged (snd (load_creds ex_output ex_modules_kms_fails (Some ''alerts'') ex_world_cached)) = []
   \<and> kms_decrypts (snd (load_creds ex_output ex_modules_kms_fails (Some ''alerts'') ex_world_cached)) = []"
  by (simp add: load_creds_hit[OF ex_world_cached_dir(2) ex_cred_location(1) ex_world_cached_hit])
     (simp add: ex_world_cached_def)

text \<open>
  Claim C4, on the code. An output with the default \<open>b = 9\<close>, a blob that decrypts and
  parses to \<open>a = 1, b = 2\<close>: \<open>_load_creds\<close> returns no dictionary, neither after
  downloading the blob nor with the blob cached, since the read raises before anything
  is decrypted. The overlay itself, \<open>load_creds_overlay_example\<close>, would give
  \<open>a = 1, b = 9\<close>.
\<close>

theorem load_creds_defaults_raises:
  "fst (load_creds ex_output_defaults ex_modules (Some ''alerts'') ex_world_empty)
     = Inl (IOError ''File not open for reading'')
   \<and> s3_downloads (snd (load_creds ex_output_defaults ex_modules (Some ''alerts'') ex_world_empty))
     = [(''prod.streamalert.secrets'', ''slack_alerts'')]
   \<and> kms_decrypts (snd (load_creds ex_output_defaults ex_modules (Some ''alerts'') ex_world_empty)) = []
   \<and> fst (load_creds ex_output_defaults ex_modules (Some ''alerts'') ex_world_cached)
     = Inl (IOError ''File not open for reading'')"
proof -
  let ?loc = "''/tmp/stream_alert_secrets/slack_alerts''"
  let ?w1 = "ex_world_empty\<lparr>fs := (fs ex_world_empty)(''/tmp/stream_alert_secrets'' \<mapsto> Dir)\<rparr>"
  have absent: "fs ?w1 ?loc = None"
    by (simp add: ex_world_empty_def)
  have name: "os_path_basename ?loc \<notin> {[], ''.'', ''..''}"
    by (simp add: ex_paths)
  have parent: "parent_stat (fs ?w1) ?loc = Some Dir"
    by (simp add: parent_stat_def ex_paths)
  have s3: "s3_get_object ex_modules (region ex_output_defaults)
      (get_secrets_bucket_name ex_output_defaults)
      (output_cred_name ex_output_defaults (Some ''alerts'')) = Inr ''blob''"
    by (simp add: ex_modules_def)
  show ?thesis
    by (simp add: load_creds_miss_success[OF ex_world_empty_dir(1) ex_cred_location(2) absent name
          parent s3]
        load_creds_hit[OF ex_world_cached_dir(1) ex_cred_location(2) ex_world_cached_hit]
        ex_cred_name ex_bucket)
      (simp add: ex_world_empty_def)
qed

section \<open>Registering a descriptor\<close>

lemma format_output_config_result:
  assumes cfg: "descriptors h config (get_config_service self) = Some xs"
    and d: "map_of props ''descriptor'' = Some p"
  shows "format_output_config self config props h =
     (Inr (length h + 2), h @ [PList [], PList [prop_value p], PList (xs @ [prop_value p])])"
proof -
  from cfg obtain items where items: "deref h config = Some (PDict items)"
    by (auto simp: descriptors_def split: option.splits obj.splits)
  then have lt: "config < length h"
    by (auto simp: deref_def split: if_splits)
  show ?thesis
  proof (cases "map_of items (get_config_service self)")
    case None
    with cfg items have "xs = []"
      by (simp add: descriptors_def)
    with None items lt d show ?thesis
      by (simp add: format_output_config_def alloc_def dict_get_def deref_def list_add_def
          nth_append split: if_splits)
  next
    case (Some a)
    with cfg items have a: "deref h a = Some (PList xs)"
      by (auto simp: descriptors_def split: option.splits obj.splits)
    then have "a < length h"
      by (auto simp: deref_def split: if_splits)
    with Some items lt d a show ?thesis
      by (simp add: format_output_config_def alloc_def dict_get_def deref_def list_add_def
          nth_append split: if_splits)
  qed
qed

lemma descriptors_append:
  assumes "descriptors h config key = Some xs"
  shows "descriptors (h @ ys) config key = Some xs"
proof -
  from assms obtain items where items: "deref h config = Some (PDict items)"
    by (auto simp: descriptors_def split: option.splits obj.splits)
  then have lt: "config < length h"
    by (auto simp: deref_def split: if_splits)
  show ?thesis
  proof (cases "map_of items key")
    case None
    with assms items lt show ?thesis
      by (simp add: descriptors_def deref_def nth_append)
  next
    case (Some a)
    with assms items have a: "deref h a = Some (PList xs)"
      by (auto simp: descriptors_def split: option.splits obj.splits)
    then have "a < length h"
      by (auto simp: deref_def split: if_splits)
    with Some items lt a show ?thesis
      by (simp add: descriptors_def deref_def nth_append split: if_splits)
  qed
qed

text \<open>
  Claim C6. Let the configuration hold the descriptor list \<open>xs\<close> for this service (the
  empty list when the service has no entry), and let \<open>props\<close> have a \<open>descriptor\<close>. Then
  \<open>format_output_config\<close> returns a list object that did not exist before the call and
  that holds \<open>xs\<close> followed by the descriptor's value; every object that existed before
  the call is unchanged, and the configuration still holds \<open>xs\<close> for the service.
\<close>

theorem format_output_config_appends:
  assumes "descriptors h config (get_config_service self) = Some xs"
    and "map_of props ''descriptor'' = Some p"
  shows "fst (format_output_config self config props h) = Inr (length h + 2)
       \<and> deref (snd (format_output_config self config props h)) (length h + 2)
           = Some (PList (xs @ [prop_value p]))
       \<and> deref h (length h + 2) = None
       \<and> take (length h) (snd (format_output_config self config props h)) = h
       \<and> descriptors (snd (format_output_config self config props h)) config
           (get_config_service self) = Some xs"
  by (simp add: format_output_config_result[OF assms] descriptors_append[OF assms(1)])
     (simp add: deref_def nth_append)

text \<open>
  The theorem at the configuration \<open>{'slack': ['ops']}\<close> and at the empty one, with the
  descriptor \<open>alerts\<close>.
\<close>

theorem format_output_config_appends_witness:
  "descriptors ex_store 0 (get_config_service ex_output) = Some [''ops'']
   \<and> map_of ex_props ''descriptor'' = Some (OutputProperty_defaults\<lparr>prop_value := ''alerts''\<rparr>)
   \<and> fst (format_output_config ex_output 0 ex_props ex_store) = Inr 4
   \<and> deref (snd (format_output_config ex_output 0 ex_props ex_store)) 4
       = Some (PList [''ops'', ''alerts''])
   \<and> take 2 (snd (format_output_config ex_output 0 ex_props ex_store)) = ex_store
   \<and> descriptors ex_store_empty 0 (get_config_service ex_output) = Some []
   \<and> deref (snd (format_output_config ex_output 0 ex_props ex_store_empty)) 3
       = Some (PList [''alerts''])"
proof -
  have cfg: "descriptors ex_store 0 (get_config_service ex_output) = Some [''ops'']"
    by (simp add: descriptors_def deref_def ex_store_def get_config_service_def ex_output_def
        init_def)
  have cfg': "descriptors ex_store_empty 0 (get_config_service ex_output) = Some []"
    by (simp add: descriptors_def deref_def ex_store_empty_def get_config_service_def
        ex_output_def init_def)
  have d: "map_of ex_props ''descriptor'' = Some (OutputProperty_defaults\<lparr>prop_value := ''alerts''\<rparr>)"
    by (simp add: ex_props_def)
  have len: "length ex_store = 2" "length ex_store_empty = 1"
    by (simp_all add: ex_store_def ex_store_empty_def)
  show ?thesis
    using format_output_config_appends[OF cfg d] format_output_config_appends[OF cfg' d] cfg cfg' d
    by (simp add: len eval_nat_numeral)
qed

section \<open>Errors of a request\<close>

text \<open>Called with its default \<open>headers=None\<close>, the helper fails before any request is sent.\<close>

lemma request_helper_headers_None:
  "request_helper urlopen url data None verify
     = Inl (AttributeError ''NoneType object has no attribute items'')"
  by (simp add: request_helper_def Request_def Let_def)

text \<open>
  Claim C7, as the code has it. Let the headers be given as a dictionary, and let
  \<open>request\<close> and \<open>ctx\<close> be what \<open>_request_helper\<close> hands to \<open>urlopen\<close>. When \<open>urlopen\<close>
  raises \<open>HTTPError\<close>, the helper raises \<open>OutputRequestFailure\<close> with a message made of
  the URL, the status code and the body that the error carries. When \<open>urlopen\<close> returns a
  response, the helper returns it. Every other exception of \<open>urlopen\<close>, a connection error
  among them, leaves the helper as it is.
\<close>

theorem request_helper_translates_http_error:
  assumes "request = \<lparr>req_url = url, req_data = data, req_headers = items\<rparr>"
    and "ctx = (if verify then None
           else Some \<lparr>check_hostname = False, verify_mode = CERT_NONE\<rparr>)"
  shows "(urlopen request ctx = Inl (HTTPError err_url err_code err_read) \<longrightarrow>
            request_helper urlopen url data (Some items) verify
              = Inl (OutputRequestFailure (''Failed to send to '' @ err_url @ '' - [''
                       @ str_int err_code @ ''] '' @ err_read)))
       \<and> (urlopen request ctx = Inr resp \<longrightarrow>
            request_helper urlopen url data (Some items) verify = Inr resp)
       \<and> (urlopen request ctx = Inl e \<and> \<not> is_HTTPError e \<longrightarrow>
            request_helper urlopen url data (Some items) verify = Inl e)"
  using assms
  by (cases e)
     (auto simp: request_helper_def Request_def Let_def create_default_context_def)

text \<open>
  The theorem at a network that answers 404, at one that answers 200, and at one that
  refuses the connection while certificates are not verified.
\<close>

theorem request_helper_translates_http_error_witness:
  "ex_urlopen_404 \<lparr>req_url = ''https://hooks/x'', req_data = ''payload'', req_headers = []\<rparr> None
     = Inl (HTTPError ''https://hooks/x'' 404 ''not found'')
   \<and> request_helper ex_urlopen_404 ''https://hooks/x'' ''payload'' (Some []) True
       = Inl (OutputRequestFailure ''Failed to send to https://hooks/x - [404] not found'')
   \<and> request_helper ex_urlopen_ok ''https://hooks/x'' ''payload'' (Some []) True
       = Inr \<lparr>getcode = 200, body = ''ok''\<rparr>
   \<and> \<not> is_HTTPError (URLError ''Connection refused'')
   \<and> request_helper ex_urlopen_refused ''https://hooks/x'' ''payload'' (Some []) False
       = Inl (URLError ''Connection refused'')"
  using request_helper_translates_http_error[where
      request = "\<lparr>req_url = ''https://hooks/x'', req_data = ''payload'', req_headers = []\<rparr>"
      and url = "''https://hooks/x''" and data = "''payload''" and items = "[]"
      and ctx = None and verify = True and urlopen = ex_urlopen_404
      and err_url = "''https://hooks/x''" and err_code = 404 and err_read = "''not found''"
      and resp = "\<lparr>getcode = 200, body = ''ok''\<rparr>" and e = "URLError ''Connection refused''"]
    request_helper_translates_http_error[where
      request = "\<lparr>req_url = ''https://hooks/x'', req_data = ''payload'', req_headers = []\<rparr>"
      and url = "''https://hooks/x''" and data = "''payload''" and items = "[]"
      and ctx = None and verify = True and urlopen = ex_urlopen_ok
      and err_url = "''https://hooks/x''" and err_code = 404 and err_read = "''not found''"
      and resp = "\<lparr>getcode = 200, body = ''ok''\<rparr>" and e = "URLError ''Connection refused''"]
    request_helper_translates_http_error[where
      request = "\<lparr>req_url = ''https://hooks/x'', req_data = ''payload'', req_headers = []\<rparr>"
      and url = "''https://hooks/x''" and data = "''payload''" and items = "[]"
      and ctx = "Some \<lparr>check_hostname = False, verify_mode = CERT_NONE\<rparr>"
      and verify = False and urlopen = ex_urlopen_refused
      and err_url = "''https://hooks/x''" and err_code = 404 and err_read = "''not found''"
      and resp = "\<lparr>getcode = 200, body = ''ok''\<rparr>" and e = "URLError ''Connection refused''"]
  by (simp add: ex_urlopen_404_def ex_urlopen_ok_def ex_urlopen_refused_def str_int_404)

text \<open>
  A connection error is not turned into \<open>OutputRequestFailure\<close>: the \<open>URLError\<close> itself
  leaves the helper. And the URL in the message is the one the error carries: after a
  redirect it is not the URL the helper was called with.
\<close>

theorem request_helper_connection_error_counterexample:
  "request_helper ex_urlopen_refused ''https://hooks/x'' ''payload'' (Some []) True
     = Inl (URLError ''Connection refused'')
   \<and> request_helper ex_urlopen_redirected_404 ''https://hooks/x'' ''payload'' (Some []) True
     = Inl (OutputRequestFailure ''Failed to send to https://elsewhere/y - [404] not found'')"
  by (simp add: request_helper_def Request_def ex_urlopen_refused_def
      ex_urlopen_redirected_404_def Let_def str_int_404)

end
